theory Spec2Isabelle
  imports Main
begin

section \<open>Values exchanged with the simulation service\<close>

text \<open>
  The three scripts talk to the service in JSON. A Python float is only ever printed by
  the scripts, never compared or computed with, so its content is left open.
\<close>

typedecl pyfloat

text \<open>
  What \<^verbatim>\<open>json.loads\<close> returns. A \<^verbatim>\<open>dict\<close> is an association list in which the first
  entry for a key counts; a \<^verbatim>\<open>str\<close> is held as the UTF-8 bytes of its code points.
\<close>

datatype json =
    JNull
  | JBool bool
  | JInt int
  | JFloat pyfloat
  | JStr string
  | JArr "json list"
  | JObj "(string \<times> json) list"

text \<open>The exceptions the scripts can meet.\<close>

datatype exn =
    TimeoutError
  | ConnectionClosed
  | JSONDecodeError
  | KeyError string
  | TypeError
  | AttributeError
  | ValueError
  | RecursionError
  | UnicodeDecodeError
  | UnicodeEncodeError
  | OverflowError

text \<open>
  \<^verbatim>\<open>json.loads\<close> belongs to Python's standard library, not to the repository. A frame is
  therefore represented by what \<^verbatim>\<open>json.loads\<close> makes of its content: it returns a
  value, or it rejects the frame. It rejects text that is not JSON with
  \<^verbatim>\<open>JSONDecodeError\<close>, an integer literal beyond the digit limit with
  \<^verbatim>\<open>ValueError\<close>, nesting beyond the recursion limit with \<^verbatim>\<open>RecursionError\<close>, and
  bytes that are not text with \<^verbatim>\<open>UnicodeDecodeError\<close>.
\<close>

datatype load_error = NotJson | DigitLimit | TooDeep | NotText

fun raised :: "load_error \<Rightarrow> exn" where
  "raised NotJson = JSONDecodeError"
| "raised DigitLimit = ValueError"
| "raised TooDeep = RecursionError"
| "raised NotText = UnicodeDecodeError"

datatype frame = Rejected load_error | Decodable json

fun json_loads :: "frame \<Rightarrow> exn + json" where
  "json_loads (Rejected why) = Inl (raised why)"
| "json_loads (Decodable v) = Inr v"

text \<open>Sequencing of expressions that may raise.\<close>

fun and_then :: "exn + 'a \<Rightarrow> ('a \<Rightarrow> exn + 'b) \<Rightarrow> exn + 'b" where
  "and_then (Inl e) f = Inl e"
| "and_then (Inr v) f = f v"

text \<open>\<^verbatim>\<open>d[k]\<close> with a string key: only a dict can be subscripted by a string.\<close>

fun subscript :: "json \<Rightarrow> string \<Rightarrow> exn + json" where
  "subscript (JObj kvs) k = (case map_of kvs k of None \<Rightarrow> Inl (KeyError k) | Some v \<Rightarrow> Inr v)"
| "subscript _ k = Inl TypeError"

text \<open>\<^verbatim>\<open>d.get(k, default)\<close>: only a dict has the method.\<close>

fun get_default :: "json \<Rightarrow> string \<Rightarrow> json \<Rightarrow> exn + json" where
  "get_default (JObj kvs) k d = (case map_of kvs k of None \<Rightarrow> Inr d | Some v \<Rightarrow> Inr v)"
| "get_default _ k d = Inl AttributeError"

text \<open>\<^verbatim>\<open>d.get(k)\<close>: the default is \<^verbatim>\<open>None\<close>.\<close>

definition get_none :: "json \<Rightarrow> string \<Rightarrow> exn + json" where
  "get_none d k = get_default d k JNull"

text \<open>
  The code points of a string held in UTF-8: every byte except the continuation bytes
  (those from 128 to 191) starts one.
\<close>

definition code_points :: "string \<Rightarrow> nat" where
  "code_points s = length (filter (\<lambda>c. \<not> (128 \<le> (of_char c :: nat) \<and> (of_char c :: nat) < 192)) s)"

text \<open>\<^verbatim>\<open>len(v)\<close>: lists, dicts and strings have a length, the other values raise.\<close>

fun py_len :: "json \<Rightarrow> exn + nat" where
  "py_len (JArr xs) = Inr (length xs)"
| "py_len (JObj kvs) = Inr (length (remdups (map fst kvs)))"
| "py_len (JStr s) = Inr (code_points s)"
| "py_len _ = Inl TypeError"

text \<open>
  An \<^verbatim>\<open>int\<close> is converted to a \<^verbatim>\<open>float\<close> by rounding to the nearest double; from
  \<open>2 ^ 1024 - 2 ^ 970\<close> on the nearest double is out of range and the conversion raises
  \<^verbatim>\<open>OverflowError\<close>.
\<close>

definition fits_float :: "int \<Rightarrow> bool" where
  "fits_float i = (\<bar>i\<bar> < 2 ^ 1024 - 2 ^ 970)"

text \<open>
  The format specification \<^verbatim>\<open>:.3f\<close>: a float is formatted, an integer (and a boolean,
  which is an integer in Python) is converted to a float first, a string raises
  \<^verbatim>\<open>ValueError\<close>, anything else \<^verbatim>\<open>TypeError\<close>.
\<close>

fun format_3f :: "json \<Rightarrow> exn + unit" where
  "format_3f (JInt i) = (if fits_float i then Inr () else Inl OverflowError)"
| "format_3f (JFloat x) = Inr ()"
| "format_3f (JBool b) = Inr ()"
| "format_3f (JStr s) = Inl ValueError"
| "format_3f _ = Inl TypeError"

section \<open>The connection and the console\<close>

text \<open>What a script prints, one constructor for each \<^verbatim>\<open>print\<close> of the sources.\<close>

datatype line =
    Connecting
  | Connected
  | InitialCount nat
  | CreatingProton
  | NewCount nat
  | ParticleCreated
  | ParticleCreationFailed
  | CreatingNeutron
  | FinalCount nat
  | SecondParticleCreated
  | SecondParticleCreationFailed
  | Sending json
  | ListeningForResponses
  | Received json
  | ErrorMessage json
  | SnapshotWith nat
  | NoMoreMessages
  | RequestedSnapshot
  | ListeningFor nat
  | SnapshotReceived
  | Particles nat
  | SimulationTime json
  | TotalEnergy json
  | OtherMessage json json
  | Dot
  | ReceivedIn nat nat
  | ErrorLine exn

text \<open>What a script does that can be observed from outside, in order.\<close>

datatype action = Send json | Print line | Disconnect

text \<open>What the service does on the connection: it sends a frame or closes.\<close>

datatype incoming = Frame frame | PeerClose

text \<open>
  The state of a run. Time is counted in microseconds since the connection was opened.
  \<open>inbox\<close> is what the service will do and when (time of arrival, event), in order; after
  the last entry the service stays silent and keeps the connection open. The scripts'
  own computation takes no time.
\<close>

record st =
  clock :: nat
  inbox :: "(nat \<times> incoming) list"
  trace :: "action list"

text \<open>
  A statement returns a value, raises, or never returns (\<open>Hang\<close>: a receive without a
  deadline that waits for a frame that never comes).
\<close>

datatype 'a res = Val 'a st | Exc exn st | Hang st

definition bnd :: "(st \<Rightarrow> 'a res) \<Rightarrow> ('a \<Rightarrow> st \<Rightarrow> 'b res) \<Rightarrow> st \<Rightarrow> 'b res" where
  "bnd m f s = (case m s of Val v s' \<Rightarrow> f v s' | Exc e s' \<Rightarrow> Exc e s' | Hang s' \<Rightarrow> Hang s')"

definition lift :: "exn + 'a \<Rightarrow> st \<Rightarrow> 'a res" where
  "lift r s = (case r of Inl e \<Rightarrow> Exc e s | Inr v \<Rightarrow> Val v s)"

definition emit :: "action \<Rightarrow> st \<Rightarrow> unit res" where
  "emit a s = Val () (s\<lparr>trace := trace s @ [a]\<rparr>)"

text \<open>The peer closes the connection at or before time \<open>d\<close>.\<close>

definition closes_by :: "nat \<Rightarrow> (nat \<times> incoming) list \<Rightarrow> bool" where
  "closes_by d evs = list_ex (\<lambda>(a, x). x = PeerClose \<and> a \<le> d) evs"

text \<open>
  \<^verbatim>\<open>await websocket.send(json.dumps(v))\<close>. The text sent is represented by the value
  dumped. Once the peer has closed the connection, a send raises
  \<^verbatim>\<open>ConnectionClosed\<close>, also while frames that arrived before the close still wait
  to be received.
\<close>

definition send :: "json \<Rightarrow> st \<Rightarrow> unit res" where
  "send v s = (if closes_by (clock s) (inbox s) then Exc ConnectionClosed s else emit (Send v) s)"

text \<open>
  \<^verbatim>\<open>print(...)\<close> on a UTF-8 console. A string from \<^verbatim>\<open>json.loads\<close> can hold a
  surrogate code point (from an escape such as \<^verbatim>\<open>\ud800\<close> without its partner), which
  UTF-8 cannot encode; in the bytes of the string it is the byte 237 followed by a byte
  from 160 to 191. Printing such a string itself raises \<^verbatim>\<open>UnicodeEncodeError\<close>; inside a
  list or a dict it is printed escaped, as is the text of an exception.
\<close>

fun has_surrogate :: "string \<Rightarrow> bool" where
  "has_surrogate (c # d # cs) =
     ((of_char c = (237::nat) \<and> 160 \<le> (of_char d :: nat) \<and> (of_char d :: nat) \<le> 191)
      \<or> has_surrogate (d # cs))"
| "has_surrogate cs = False"

fun encodable :: "json \<Rightarrow> bool" where
  "encodable (JStr s) = (\<not> has_surrogate s)"
| "encodable v = True"

text \<open>The lines that show a value of the frame as it is.\<close>

fun line_encodes :: "line \<Rightarrow> bool" where
  "line_encodes (Received v) = encodable v"
| "line_encodes (ErrorMessage v) = encodable v"
| "line_encodes (OtherMessage v d) = encodable v"
| "line_encodes l = True"

definition print :: "line \<Rightarrow> st \<Rightarrow> unit res" where
  "print l s = (if line_encodes l then emit (Print l) s else Exc UnicodeEncodeError s)"

text \<open>\<^verbatim>\<open>await asyncio.sleep(d)\<close>.\<close>

definition sleep :: "nat \<Rightarrow> st \<Rightarrow> unit res" where
  "sleep d s = Val () (s\<lparr>clock := clock s + d\<rparr>)"

text \<open>The event at the head of the inbox is handed over at its time of arrival.\<close>

fun deliver :: "nat \<Rightarrow> incoming \<Rightarrow> (nat \<times> incoming) list \<Rightarrow> st \<Rightarrow> frame res" where
  "deliver a (Frame f) rest s = Val f (s\<lparr>clock := max (clock s) a, inbox := rest\<rparr>)"
| "deliver a PeerClose rest s = Exc ConnectionClosed (s\<lparr>clock := max (clock s) a\<rparr>)"

text \<open>\<^verbatim>\<open>await websocket.recv()\<close>: waits for the next event, however long it takes.\<close>

definition recv :: "st \<Rightarrow> frame res" where
  "recv s = (case inbox s of [] \<Rightarrow> Hang s | (a, x) # rest \<Rightarrow> deliver a x rest s)"

text \<open>
  \<^verbatim>\<open>await asyncio.wait_for(websocket.recv(), timeout=t)\<close>: the next event if it arrives
  before the deadline, \<^verbatim>\<open>TimeoutError\<close> at the deadline otherwise.
\<close>

definition recv_within :: "nat \<Rightarrow> st \<Rightarrow> frame res" where
  "recv_within t s =
     (case inbox s of
        [] \<Rightarrow> Exc TimeoutError (s\<lparr>clock := clock s + t\<rparr>)
      | (a, x) # rest \<Rightarrow>
          if a < clock s + t then deliver a x rest s
          else Exc TimeoutError (s\<lparr>clock := clock s + t\<rparr>))"

text \<open>
  \<^verbatim>\<open>async with websockets.connect(uri) as websocket:\<close> closes the connection when the
  body returns or raises. The connection itself is taken to be established.
\<close>

definition with_connection :: "(st \<Rightarrow> 'a res) \<Rightarrow> st \<Rightarrow> 'a res" where
  "with_connection body s =
     (case body s of
        Val v s' \<Rightarrow> Val v (s'\<lparr>trace := trace s' @ [Disconnect]\<rparr>)
      | Exc e s' \<Rightarrow> Exc e (s'\<lparr>trace := trace s' @ [Disconnect]\<rparr>)
      | Hang s' \<Rightarrow> Hang s')"

text \<open>A run starts at time 0 with nothing done yet.\<close>

definition start :: "(nat \<times> incoming) list \<Rightarrow> st" where
  "start evs = \<lparr>clock = 0, inbox = evs, trace = []\<rparr>"

section \<open>test-create-particle.py\<close>

definition get_snapshot :: json where
  "get_snapshot = JObj [(''type'', JStr ''getSnapshot'')]"

definition create_msg :: "string \<Rightarrow> int \<Rightarrow> json" where
  "create_msg species c =
     JObj [(''type'', JStr ''createParticle''),
           (''payload'', JObj [(''type'', JStr species),
                               (''position'', JObj [(''x'', JInt c), (''y'', JInt c), (''z'', JInt c)])])]"

text \<open>\<^verbatim>\<open>len(data['payload']['particles'])\<close>\<close>

definition particle_count :: "json \<Rightarrow> exn + nat" where
  "particle_count data =
     and_then (and_then (subscript data ''payload'') (\<lambda>p. subscript p ''particles'')) py_len"

text \<open>
  The body of \<^verbatim>\<open>test_create_particle\<close> in \<^verbatim>\<open>test-create-particle.py\<close>, statement by
  statement.
\<close>

definition create_particle_body :: "st \<Rightarrow> unit res" where
  "create_particle_body =
     bnd (print Connected) (\<lambda>_.
     bnd (send get_snapshot) (\<lambda>_.
     bnd recv (\<lambda>response.
     bnd (lift (json_loads response)) (\<lambda>data.
     bnd (lift (particle_count data)) (\<lambda>initial_count.
     bnd (print (InitialCount initial_count)) (\<lambda>_.
     bnd (print CreatingProton) (\<lambda>_.
     bnd (send (create_msg ''proton'' 5)) (\<lambda>_.
     bnd (sleep 500000) (\<lambda>_.
     bnd (send get_snapshot) (\<lambda>_.
     bnd recv (\<lambda>response.
     bnd (lift (json_loads response)) (\<lambda>data.
     bnd (lift (particle_count data)) (\<lambda>new_count.
     bnd (print (NewCount new_count)) (\<lambda>_.
     bnd (if new_count > initial_count then print ParticleCreated
          else print ParticleCreationFailed) (\<lambda>_.
     bnd (print CreatingNeutron) (\<lambda>_.
     bnd (send (create_msg ''neutron'' (- 5))) (\<lambda>_.
     bnd (sleep 500000) (\<lambda>_.
     bnd (send get_snapshot) (\<lambda>_.
     bnd recv (\<lambda>response.
     bnd (lift (json_loads response)) (\<lambda>data.
     bnd (lift (particle_count data)) (\<lambda>final_count.
     bnd (print (FinalCount final_count)) (\<lambda>_.
     if final_count > new_count then print SecondParticleCreated
     else print SecondParticleCreationFailed)))))))))))))))))))))))"

definition test_create_particle :: "st \<Rightarrow> unit res" where
  "test_create_particle =
     bnd (print Connecting) (\<lambda>_. with_connection create_particle_body)"

section \<open>test-create-particle-debug.py\<close>

text \<open>\<^verbatim>\<open>for i in range(n): body\<close>; the body does not use \<^verbatim>\<open>i\<close>.\<close>

fun for_range :: "nat \<Rightarrow> (st \<Rightarrow> unit res) \<Rightarrow> st \<Rightarrow> unit res" where
  "for_range 0 body s = Val () s"
| "for_range (Suc n) body s = bnd body (\<lambda>_. for_range n body) s"

text \<open>\<^verbatim>\<open>try: body  except asyncio.TimeoutError: handler\<close>\<close>

definition except_timeout :: "(st \<Rightarrow> 'a res) \<Rightarrow> (st \<Rightarrow> 'a res) \<Rightarrow> st \<Rightarrow> 'a res" where
  "except_timeout body handler s =
     (case body s of
        Val v s' \<Rightarrow> Val v s'
      | Exc e s' \<Rightarrow> if e = TimeoutError then handler s' else Exc e s'
      | Hang s' \<Rightarrow> Hang s')"

text \<open>\<^verbatim>\<open>data.get('payload', {}).get('message', 'Unknown error')\<close>\<close>

definition error_message :: "json \<Rightarrow> exn + json" where
  "error_message data =
     and_then (get_default data ''payload'' (JObj []))
       (\<lambda>p. get_default p ''message'' (JStr ''Unknown error''))"

text \<open>One pass through the body of the \<^verbatim>\<open>for\<close> loop.\<close>

definition drain_step :: "st \<Rightarrow> unit res" where
  "drain_step =
     bnd (recv_within 1000000) (\<lambda>response.
     bnd (lift (json_loads response)) (\<lambda>data.
     bnd (lift (subscript data ''type'')) (\<lambda>ty.
     bnd (print (Received ty)) (\<lambda>_.
     if ty = JStr ''error'' then
       bnd (lift (error_message data)) (\<lambda>m. print (ErrorMessage m))
     else if ty = JStr ''snapshot'' then
       bnd (lift (particle_count data)) (\<lambda>n. print (SnapshotWith n))
     else Val ()))))"

text \<open>
  The \<^verbatim>\<open>try\<close> block that listens for responses: five passes, left at the first
  \<^verbatim>\<open>TimeoutError\<close>.
\<close>

definition listen_for_responses :: "st \<Rightarrow> unit res" where
  "listen_for_responses = except_timeout (for_range 5 drain_step) (print NoMoreMessages)"

definition debug_body :: "st \<Rightarrow> unit res" where
  "debug_body =
     bnd (print Connected) (\<lambda>_.
     bnd (print CreatingProton) (\<lambda>_.
     bnd (print (Sending (create_msg ''proton'' 5))) (\<lambda>_.
     bnd (send (create_msg ''proton'' 5)) (\<lambda>_.
     bnd (print ListeningForResponses) (\<lambda>_.
     listen_for_responses)))))"

definition test_create_particle_debug :: "st \<Rightarrow> unit res" where
  "test_create_particle_debug =
     bnd (print Connecting) (\<lambda>_. with_connection debug_body)"

section \<open>test-ws-simple.py\<close>

text \<open>
  The \<^verbatim>\<open>seconds\<close> field of a non-negative \<^verbatim>\<open>timedelta\<close> given in microseconds: whole
  seconds, without the days.
\<close>

definition seconds :: "nat \<Rightarrow> nat" where
  "seconds d = (d div 1000000) mod 86400"

definition timeout :: nat where
  "timeout = 10"

text \<open>The branch for a message whose type is \<^verbatim>\<open>snapshot\<close>.\<close>

definition snapshot_report :: "json \<Rightarrow> st \<Rightarrow> unit res" where
  "snapshot_report data =
     bnd (lift (get_default data ''payload'' (JObj []))) (\<lambda>payload.
     bnd (lift (get_default payload ''particles'' (JArr []))) (\<lambda>particles.
     bnd (lift (get_default payload ''metrics'' (JObj []))) (\<lambda>metrics.
     bnd (print SnapshotReceived) (\<lambda>_.
     bnd (lift (py_len particles)) (\<lambda>n.
     bnd (print (Particles n)) (\<lambda>_.
     bnd (lift (get_default payload ''simulationTime'' (JInt 0))) (\<lambda>t.
     bnd (lift (format_3f t)) (\<lambda>_.
     bnd (print (SimulationTime t)) (\<lambda>_.
     bnd (lift (get_default metrics ''totalEnergy'' (JInt 0))) (\<lambda>e.
     bnd (lift (format_3f e)) (\<lambda>_.
     print (TotalEnergy e))))))))))))"

text \<open>
  One pass through the body of the \<^verbatim>\<open>while\<close> loop, with its own
  \<^verbatim>\<open>try ... except asyncio.TimeoutError\<close>; the value is the new \<^verbatim>\<open>message_count\<close>.
\<close>

definition listen_step :: "nat \<Rightarrow> st \<Rightarrow> nat res" where
  "listen_step message_count =
     except_timeout
       (bnd (recv_within 1000000) (\<lambda>message.
        bnd (lift (json_loads message)) (\<lambda>data.
        bnd (lift (get_none data ''type'')) (\<lambda>ty.
        bnd (if ty = JStr ''snapshot'' then snapshot_report data
             else print (OtherMessage ty data)) (\<lambda>_.
        Val (message_count + 1))))))
       (bnd (print Dot) (\<lambda>_. Val message_count))"

subsection \<open>The loop ends\<close>

text \<open>
  The statements between two receives leave the clock and the inbox alone, never hang and
  never raise \<^verbatim>\<open>TimeoutError\<close>; a receive with a deadline either takes an event from the
  inbox or lets one second pass. So the \<^verbatim>\<open>while\<close> loop of the listener ends.
\<close>

definition state_of :: "'a res \<Rightarrow> st" where
  "state_of r = (case r of Val v s \<Rightarrow> s | Exc e s \<Rightarrow> s | Hang s \<Rightarrow> s)"

definition tame :: "(st \<Rightarrow> 'a res) \<Rightarrow> bool" where
  "tame m = (\<forall>s. inbox (state_of (m s)) = inbox s \<and> clock (state_of (m s)) = clock s \<and>
                 (\<forall>s'. m s \<noteq> Hang s') \<and> (\<forall>s'. m s \<noteq> Exc TimeoutError s'))"

lemma raised_no_timeout: "raised why \<noteq> TimeoutError"
  by (cases why) simp_all

lemma json_loads_no_timeout: "json_loads f \<noteq> Inl TimeoutError"
  by (cases f) (simp_all add: raised_no_timeout)

lemma get_default_no_timeout: "get_default d k x \<noteq> Inl TimeoutError"
  by (cases d) (auto split: option.splits)

lemma get_none_no_timeout: "get_none d k \<noteq> Inl TimeoutError"
  by (simp add: get_none_def get_default_no_timeout)

lemma py_len_no_timeout: "py_len v \<noteq> Inl TimeoutError"
  by (cases v) auto

lemma format_3f_no_timeout: "format_3f v \<noteq> Inl TimeoutError"
  by (cases v) auto

lemma tame_lift: "r \<noteq> Inl TimeoutError \<Longrightarrow> tame (lift r)"
  by (auto simp: tame_def lift_def state_of_def split: sum.splits)

lemma tame_print: "tame (print l)"
  by (simp add: tame_def print_def emit_def state_of_def)

lemma tame_Val: "tame (Val v)"
  by (simp add: tame_def state_of_def)

lemma tame_bnd:
  assumes m: "tame m" and f: "\<And>v. tame (f v)"
  shows "tame (bnd m f)"
  unfolding tame_def
proof (intro allI)
  fix s
  from m have ms: "inbox (state_of (m s)) = inbox s \<and> clock (state_of (m s)) = clock s \<and>
       (\<forall>s'. m s \<noteq> Hang s') \<and> (\<forall>s'. m s \<noteq> Exc TimeoutError s')"
    by (simp add: tame_def)
  show "inbox (state_of (bnd m f s)) = inbox s \<and> clock (state_of (bnd m f s)) = clock s \<and>
       (\<forall>s'. bnd m f s \<noteq> Hang s') \<and> (\<forall>s'. bnd m f s \<noteq> Exc TimeoutError s')"
  proof (cases "m s")
    case (Val v s')
    from f [of v] have "inbox (state_of (f v s')) = inbox s' \<and> clock (state_of (f v s')) = clock s' \<and>
       (\<forall>s''. f v s' \<noteq> Hang s'') \<and> (\<forall>s''. f v s' \<noteq> Exc TimeoutError s'')"
      by (simp add: tame_def)
    with ms Val show ?thesis by (simp add: bnd_def state_of_def)
  next
    case (Exc e s')
    with ms show ?thesis by (simp add: bnd_def state_of_def)
  next
    case (Hang s')
    with ms show ?thesis by simp
  qed
qed

lemma tame_if: "tame a \<Longrightarrow> tame b \<Longrightarrow> tame (if c then a else b)"
  by simp

lemma tame_snapshot_report: "tame (snapshot_report data)"
  unfolding snapshot_report_def
  by (intro tame_bnd tame_lift tame_print get_default_no_timeout py_len_no_timeout
        format_3f_no_timeout)

lemma deliver_Val: "deliver a x rest s = Val f s' \<Longrightarrow> inbox s' = rest"
  by (cases x) auto

lemma deliver_Exc: "deliver a x rest s = Exc e s' \<Longrightarrow> e = ConnectionClosed"
  by (cases x) auto

lemma deliver_not_Hang: "deliver a x rest s \<noteq> Hang s'"
  by (cases x) auto

lemma recv_within_Val:
  "recv_within t s = Val f s' \<Longrightarrow> length (inbox s') < length (inbox s)"
  by (auto simp: recv_within_def split: list.splits if_splits dest: deliver_Val)

lemma recv_within_Timeout:
  "recv_within t s = Exc TimeoutError s' \<Longrightarrow> inbox s' = inbox s \<and> clock s' = clock s + t"
  by (auto simp: recv_within_def split: list.splits if_splits dest: deliver_Exc)

lemma recv_within_not_Hang: "recv_within t s \<noteq> Hang s'"
  by (auto simp: recv_within_def deliver_not_Hang split: list.splits if_splits)

definition after_message :: "nat \<Rightarrow> frame \<Rightarrow> st \<Rightarrow> nat res" where
  "after_message message_count message =
        bnd (lift (json_loads message)) (\<lambda>data.
        bnd (lift (get_none data ''type'')) (\<lambda>ty.
        bnd (if ty = JStr ''snapshot'' then snapshot_report data
             else print (OtherMessage ty data)) (\<lambda>_.
        Val (message_count + 1))))"

lemma tame_after_message: "tame (after_message n message)"
  unfolding after_message_def
  by (intro tame_bnd tame_lift tame_print tame_if tame_snapshot_report tame_Val
       json_loads_no_timeout get_none_no_timeout)

lemma listen_step_unfold:
  "listen_step n = except_timeout (bnd (recv_within 1000000) (after_message n))
       (bnd (print Dot) (\<lambda>_. Val n))"
  by (simp only: listen_step_def after_message_def [abs_def])

lemma listen_step_Val:
  assumes "listen_step n s = Val n' s'"
  shows "length (inbox s') < length (inbox s) \<or> (inbox s' = inbox s \<and> clock s' = clock s + 1000000)"
proof (cases "recv_within 1000000 s")
  case (Val f s1)
  then have len: "length (inbox s1) < length (inbox s)" by (rule recv_within_Val)
  from tame_after_message [of n f]
  have t: "inbox (state_of (after_message n f s1)) = inbox s1"
    "\<And>s'. after_message n f s1 \<noteq> Exc TimeoutError s'"
    by (simp_all add: tame_def)
  from assms Val t(2) have "after_message n f s1 = Val n' s'"
    by (cases "after_message n f s1")
       (auto simp: listen_step_unfold except_timeout_def bnd_def split: if_splits)
  with t(1) have "inbox s' = inbox s1" by (simp add: state_of_def)
  with len show ?thesis by simp
next
  case (Exc e s1)
  show ?thesis
  proof (cases "e = TimeoutError")
    case True
    with Exc have "inbox s1 = inbox s \<and> clock s1 = clock s + 1000000"
      using recv_within_Timeout by blast
    moreover from assms Exc True have "s' = s1\<lparr>trace := trace s1 @ [Print Dot]\<rparr>"
      by (simp add: listen_step_unfold except_timeout_def bnd_def print_def emit_def)
    ultimately show ?thesis by simp
  next
    case False
    with assms Exc show ?thesis
      by (simp add: listen_step_unfold except_timeout_def bnd_def)
  qed
next
  case (Hang s1)
  then show ?thesis by (simp add: recv_within_not_Hang)
qed

lemma seconds_step:
  assumes "seconds d < timeout"
  shows "seconds (d + 1000000) = seconds d + 1"
proof -
  have a: "(d + 1000000) div 1000000 = d div 1000000 + 1" by (rule div_add_self2) simp
  from assms have b: "(d div 1000000) mod 86400 + 1 < 86400"
    unfolding seconds_def timeout_def by linarith
  have "(d div 1000000 + 1) mod 86400 = ((d div 1000000) mod 86400 + 1) mod 86400"
    by (rule mod_add_left_eq [symmetric])
  also from b have "\<dots> = (d div 1000000) mod 86400 + 1" by (rule mod_less)
  finally show ?thesis unfolding seconds_def a .
qed


definition remaining :: "nat \<Rightarrow> nat \<Rightarrow> nat" where
  "remaining start_time c = (start_time - c) + (timeout - seconds (c - start_time)) * 1000000"

lemma seconds_small: "d < 1000000 \<Longrightarrow> seconds d = 0"
  by (simp add: seconds_def)

lemma shift_sub: "start_time \<le> c \<Longrightarrow> c + 1000000 - start_time = (c - start_time) + (1000000::nat)"
  by linarith

lemma scale_less: "(a::nat) < b \<Longrightarrow> a * 1000000 < b * 1000000"
  by (rule mult_less_mono1) simp_all


lemma remaining_step:
  assumes "seconds (c - start_time) < timeout"
  shows "remaining start_time (c + 1000000) < remaining start_time c"
proof (cases "start_time \<le> c")
  case True
  then have "c + 1000000 - start_time = (c - start_time) + 1000000" by (rule shift_sub)
  with seconds_step [OF assms]
  have s: "seconds (c + 1000000 - start_time) = seconds (c - start_time) + 1"
    by (simp only:)
  from True have z: "start_time - c = 0" "start_time - (c + 1000000) = 0" by linarith+
  from assms have "timeout - (seconds (c - start_time) + 1) < timeout - seconds (c - start_time)"
    by linarith
  then have "(timeout - (seconds (c - start_time) + 1)) * 1000000
      < (timeout - seconds (c - start_time)) * 1000000"
    by (rule scale_less)
  then show ?thesis unfolding remaining_def s z by (simp only: add_0)
next
  case False
  then have c: "c < start_time" by linarith
  then have "c - start_time < 1000000" by linarith
  then have s0: "seconds (c - start_time) = 0" by (rule seconds_small)
  have "c + 1000000 - start_time < 1000000" using c by linarith
  then have s1: "seconds (c + 1000000 - start_time) = 0" by (rule seconds_small)
  from c have "start_time - (c + 1000000) < start_time - c" by linarith
  then show ?thesis unfolding remaining_def s0 s1 by (rule add_strict_right_mono)
qed


text \<open>
  The \<^verbatim>\<open>while\<close> loop: \<^verbatim>\<open>while (datetime.now() - start_time).seconds < timeout\<close>; the
  value is the final \<^verbatim>\<open>message_count\<close>.
\<close>

function listen_loop :: "nat \<Rightarrow> nat \<Rightarrow> st \<Rightarrow> nat res" where
  "listen_loop start_time message_count s =
     (if seconds (clock s - start_time) < timeout then
        (case listen_step message_count s of
           Val n s' \<Rightarrow> listen_loop start_time n s'
         | Exc e s' \<Rightarrow> Exc e s'
         | Hang s' \<Rightarrow> Hang s')
      else Val message_count s)"
  by pat_completeness auto
termination
proof (relation "inv_image (less_than <*lex*> less_than)
         (\<lambda>(start_time, n, s). (length (inbox s), remaining start_time (clock s)))")
  show "wf (inv_image (less_than <*lex*> less_than)
         (\<lambda>(start_time, n, s). (length (inbox s), remaining start_time (clock s))))"
    by (intro wf_inv_image wf_lex_prod wf_less_than)
next
  fix start_time message_count :: nat and s :: st and n' s'
  assume "seconds (clock s - start_time) < timeout" and "listen_step message_count s = Val n' s'"
  then show "((start_time, n', s'), (start_time, message_count, s))
       \<in> inv_image (less_than <*lex*> less_than)
         (\<lambda>(start_time, n, s). (length (inbox s), remaining start_time (clock s)))"
    using listen_step_Val [of message_count s n' s'] remaining_step [of "clock s" start_time]
    by auto
qed


declare listen_loop.simps [simp del]

text \<open>\<^verbatim>\<open>datetime.now()\<close>\<close>

definition now :: "st \<Rightarrow> nat res" where
  "now s = Val (clock s) s"

text \<open>\<^verbatim>\<open>try: body  except Exception as e: handler\<close>; every exception of the model is one.\<close>

definition except_exception :: "(st \<Rightarrow> 'a res) \<Rightarrow> (exn \<Rightarrow> st \<Rightarrow> 'a res) \<Rightarrow> st \<Rightarrow> 'a res" where
  "except_exception body handler s =
     (case body s of
        Val v s' \<Rightarrow> Val v s'
      | Exc e s' \<Rightarrow> handler e s'
      | Hang s' \<Rightarrow> Hang s')"

text \<open>The outer \<^verbatim>\<open>try\<close> block: the listening loop and the summary line.\<close>

definition listen :: "st \<Rightarrow> unit res" where
  "listen =
     bnd (print (ListeningFor timeout)) (\<lambda>_.
     bnd now (\<lambda>start_time.
     bnd (listen_loop start_time 0) (\<lambda>message_count.
     print (ReceivedIn message_count timeout))))"

definition websocket_body :: "st \<Rightarrow> unit res" where
  "websocket_body =
     bnd (print Connected) (\<lambda>_.
     bnd (send get_snapshot) (\<lambda>_.
     bnd (print RequestedSnapshot) (\<lambda>_.
     except_exception listen (\<lambda>e. print (ErrorLine e)))))"

definition test_websocket :: "st \<Rightarrow> unit res" where
  "test_websocket =
     bnd (print Connecting) (\<lambda>_. with_connection websocket_body)"

section \<open>Notions used in the statements\<close>

text \<open>The values a run has sent, in order.\<close>

definition sends :: "action list \<Rightarrow> json list" where
  "sends tr = concat (map (\<lambda>a. case a of Send v \<Rightarrow> [v] | _ \<Rightarrow> []) tr)"

text \<open>What the two-creation script reads from a reply: \<^verbatim>\<open>len(json.loads(response)['payload']['particles'])\<close>.\<close>

definition reply_count :: "frame \<Rightarrow> exn + nat" where
  "reply_count f = and_then (json_loads f) particle_count"

text \<open>A snapshot reply with \<open>n\<close> particles, and an error reply.\<close>

definition snapshot_frame :: "nat \<Rightarrow> frame" where
  "snapshot_frame n =
     Decodable (JObj [(''type'', JStr ''snapshot''),
                      (''payload'', JObj [(''particles'', JArr (replicate n (JObj [])))])])"

definition error_frame :: frame where
  "error_frame =
     Decodable (JObj [(''type'', JStr ''error''),
                      (''payload'', JObj [(''message'', JStr ''unknown species'')])])"

text \<open>
  Nothing arrives within \<open>t\<close> microseconds from now; the service sends nothing before
  time \<open>d\<close>.
\<close>

definition nothing_due :: "nat \<Rightarrow> st \<Rightarrow> bool" where
  "nothing_due t s = (case inbox s of [] \<Rightarrow> True | (a, x) # rest \<Rightarrow> clock s + t \<le> a)"

definition silent_until :: "nat \<Rightarrow> (nat \<times> incoming) list \<Rightarrow> bool" where
  "silent_until d evs = list_all (\<lambda>(a, x). d \<le> a) evs"

text \<open>The summary lines of a trace: message count and seconds reported.\<close>

definition summaries :: "action list \<Rightarrow> (nat \<times> nat) list" where
  "summaries tr = concat (map (\<lambda>a. case a of Print (ReceivedIn n t) \<Rightarrow> [(n, t)] | _ \<Rightarrow> []) tr)"

text \<open>The state in which the listener enters its \<^verbatim>\<open>while\<close> loop, and what leaves the summary lines alone.\<close>

definition listening :: "(nat \<times> incoming) list \<Rightarrow> st" where
  "listening evs = \<lparr>clock = 0, inbox = evs, trace =
     [Print Connecting, Print Connected, Send get_snapshot, Print RequestedSnapshot,
      Print (ListeningFor timeout)]\<rparr>"

definition plain :: "(st \<Rightarrow> 'a res) \<Rightarrow> bool" where
  "plain m = (\<forall>s. summaries (trace (state_of (m s))) = summaries (trace s))"

text \<open>The state in which the debug script enters its \<^verbatim>\<open>try\<close> block.\<close>

definition responding :: "(nat \<times> incoming) list \<Rightarrow> st" where
  "responding evs = \<lparr>clock = 0, inbox = evs, trace =
     [Print Connecting, Print Connected, Print CreatingProton,
      Print (Sending (create_msg ''proton'' 5)), Send (create_msg ''proton'' 5),
      Print ListeningForResponses]\<rparr>"

text \<open>
  From \<open>s\<close> to \<open>s'\<close> at most \<open>n\<close> events have been taken from the inbox and at most
  \<open>t\<close> microseconds have passed.
\<close>

definition taken :: "nat \<Rightarrow> nat \<Rightarrow> st \<Rightarrow> st \<Rightarrow> bool" where
  "taken n t s s' = ((\<exists>k\<le>n. inbox s' = drop k (inbox s)) \<and> clock s' \<le> clock s + t)"

text \<open>A statement that never blocks forever.\<close>

definition returns :: "(st \<Rightarrow> 'a res) \<Rightarrow> bool" where
  "returns m = (\<forall>s s'. m s \<noteq> Hang s')"

section \<open>Runs of the two-creation script\<close>

lemmas run_defs = bnd_def lift_def emit_def send_def print_def sleep_def recv_def
  with_connection_def start_def state_of_def

lemma reply_count_snapshot_frame: "reply_count (snapshot_frame n) = Inr n"
  by (simp add: reply_count_def snapshot_frame_def particle_count_def)

lemma reply_count_lift:
  "bnd (lift (json_loads f)) (\<lambda>data. bnd (lift (particle_count data)) k) s =
   bnd (lift (reply_count f)) k s"
  by (cases "json_loads f") (simp_all add: reply_count_def bnd_def lift_def)

lemma closes_by_Nil [simp]: "closes_by d [] = False"
  by (simp add: closes_by_def)

lemma closes_by_Frame [simp]: "closes_by d ((a, Frame f) # evs) = closes_by d evs"
  by (simp add: closes_by_def)

lemma closes_by_Close [simp]:
  "closes_by d ((a, PeerClose) # evs) = (a \<le> d \<or> closes_by d evs)"
  by (simp add: closes_by_def)

lemma closes_by_mono: "closes_by d evs \<Longrightarrow> d \<le> d' \<Longrightarrow> closes_by d' evs"
  by (induction evs) (auto simp: closes_by_def)

lemma open_before: "\<not> closes_by d' evs \<Longrightarrow> d \<le> d' \<Longrightarrow> \<not> closes_by d evs"
  using closes_by_mono by blast

text \<open>
  The times of the sends of the two-creation script, when the first reply arrives at
  \<open>ta\<close> and the second at \<open>tb\<close>: 0, \<open>ta\<close>, \<open>ta + 500000\<close>, then
  \<open>max (ta + 500000) tb\<close> and half a second later.
\<close>

lemma open_at_sends:
  assumes "\<not> closes_by (max (ta + 500000) tb + 500000) rest"
  shows "\<not> closes_by (max (ta + 500000) tb) rest" and "\<not> closes_by (ta + 500000) rest"
    and "\<not> closes_by ta rest" and "\<not> closes_by 0 rest"
proof -
  have "max (ta + 500000) tb \<le> max (ta + 500000) tb + 500000" by (rule le_add1)
  with assms show a: "\<not> closes_by (max (ta + 500000) tb) rest" by (rule open_before)
  have "ta + 500000 \<le> max (ta + 500000) tb" by (rule max.cobounded1)
  with a show b: "\<not> closes_by (ta + 500000) rest" by (rule open_before)
  have "ta \<le> ta + 500000" by (rule le_add1)
  with b show c: "\<not> closes_by ta rest" by (rule open_before)
  from c show "\<not> closes_by 0 rest" by (rule open_before) simp
qed

lemma create_particle_run:
  assumes evs: "evs = (ta, Frame first) # (tb, Frame second) # (tc, Frame third) # rest"
    and n: "reply_count first = Inr initial_count" "reply_count second = Inr new_count"
      "reply_count third = Inr final_count"
    and stays_open: "\<not> closes_by (max (ta + 500000) tb + 500000) rest"
  shows "\<exists>c. test_create_particle (start evs) =
     Val () \<lparr>clock = c, inbox = rest, trace =
       [Print Connecting, Print Connected, Send get_snapshot, Print (InitialCount initial_count),
        Print CreatingProton, Send (create_msg ''proton'' 5), Send get_snapshot,
        Print (NewCount new_count),
        Print (if initial_count < new_count then ParticleCreated else ParticleCreationFailed),
        Print CreatingNeutron, Send (create_msg ''neutron'' (- 5)), Send get_snapshot,
        Print (FinalCount final_count),
        Print (if new_count < final_count then SecondParticleCreated else SecondParticleCreationFailed),
        Disconnect]\<rparr>"
  unfolding test_create_particle_def create_particle_body_def evs reply_count_lift
  by (simp add: run_defs n stays_open open_at_sends [OF stays_open])

lemma create_particle_raises_1:
  assumes "reply_count first = Inl e" and "\<not> closes_by 0 rest"
  shows "test_create_particle (start ((ta, Frame first) # rest)) =
     Exc e \<lparr>clock = ta, inbox = rest, trace =
       [Print Connecting, Print Connected, Send get_snapshot, Disconnect]\<rparr>"
  unfolding test_create_particle_def create_particle_body_def reply_count_lift
  by (simp add: run_defs assms)

lemma create_particle_raises_2:
  assumes "reply_count first = Inr initial_count" "reply_count second = Inl e"
    and stays_open: "\<not> closes_by (ta + 500000) rest"
  shows "\<exists>c. test_create_particle (start ((ta, Frame first) # (tb, Frame second) # rest)) =
     Exc e \<lparr>clock = c, inbox = rest, trace =
       [Print Connecting, Print Connected, Send get_snapshot, Print (InitialCount initial_count),
        Print CreatingProton, Send (create_msg ''proton'' 5), Send get_snapshot,
        Disconnect]\<rparr>"
proof -
  have "ta \<le> ta + 500000" by (rule le_add1)
  with stays_open have a: "\<not> closes_by ta rest" by (rule open_before)
  then have b: "\<not> closes_by 0 rest" by (rule open_before) simp
  show ?thesis
    unfolding test_create_particle_def create_particle_body_def reply_count_lift
    by (simp add: run_defs assms a b)
qed

lemma create_particle_raises_3:
  assumes "reply_count first = Inr initial_count" "reply_count second = Inr new_count"
    "reply_count third = Inl e"
    and stays_open: "\<not> closes_by (max (ta + 500000) tb + 500000) rest"
  shows "\<exists>c. test_create_particle
       (start ((ta, Frame first) # (tb, Frame second) # (tc, Frame third) # rest)) =
     Exc e \<lparr>clock = c, inbox = rest, trace =
       [Print Connecting, Print Connected, Send get_snapshot, Print (InitialCount initial_count),
        Print CreatingProton, Send (create_msg ''proton'' 5), Send get_snapshot,
        Print (NewCount new_count),
        Print (if initial_count < new_count then ParticleCreated else ParticleCreationFailed),
        Print CreatingNeutron, Send (create_msg ''neutron'' (- 5)), Send get_snapshot,
        Disconnect]\<rparr>"
  unfolding test_create_particle_def create_particle_body_def reply_count_lift
  by (simp add: run_defs assms open_at_sends [OF stays_open])

lemma reply_count_no_particles:
  assumes "map_of kvs ''payload'' = Some (JObj p)" "map_of p ''particles'' = None"
  shows "reply_count (Decodable (JObj kvs)) = Inl (KeyError ''particles'')"
  by (simp add: reply_count_def particle_count_def assms)

section \<open>Steps and runs of the listener and of the debug script\<close>

lemma recv_within_nothing_due:
  "nothing_due t s \<Longrightarrow> recv_within t s = Exc TimeoutError (s\<lparr>clock := clock s + t\<rparr>)"
  by (auto simp: nothing_due_def recv_within_def split: list.splits)

lemma listen_step_timeout:
  "nothing_due 1000000 s \<Longrightarrow>
   listen_step n s = Val n (s\<lparr>clock := clock s + 1000000, trace := trace s @ [Print Dot]\<rparr>)"
  by (simp add: listen_step_def except_timeout_def bnd_def recv_within_nothing_due
      print_def emit_def)

lemma seconds_whole: "k \<le> 10 \<Longrightarrow> seconds (k * 1000000) = k"
  by (simp add: seconds_def)


lemma listen_loop_silent:
  assumes "inbox s = [] \<or> start_time + 10000000 \<le> fst (hd (inbox s))"
    and "clock s = start_time + k * 1000000" and "k \<le> 10"
  shows "listen_loop start_time n s =
     Val n (s\<lparr>clock := start_time + 10000000,
              trace := trace s @ replicate (10 - k) (Print Dot)\<rparr>)"
  using assms
proof (induction "10 - k" arbitrary: k s)
  case 0
  then have k: "k = 10" by linarith
  with "0.prems"(2) have c: "clock s - start_time = 10 * 1000000" by simp
  have "seconds (clock s - start_time) = 10" unfolding c by (rule seconds_whole) simp
  then have "listen_loop start_time n s = Val n s"
    by (subst listen_loop.simps) (simp add: timeout_def)
  moreover from k "0.prems"(2) have "clock s = start_time + 10000000" by simp
  then have "s\<lparr>clock := start_time + 10000000,
        trace := trace s @ replicate (10 - k) (Print Dot)\<rparr> = s"
    using k by simp
  ultimately show ?case by simp
next
  case (Suc j)
  then have k: "k < 10" and j: "j = 10 - Suc k" by linarith+
  from Suc.prems(2) have "clock s - start_time = k * 1000000" by simp
  with k have sec: "seconds (clock s - start_time) = k" by (simp add: seconds_whole)
  from k have "k * 1000000 + 1000000 \<le> (10000000::nat)" by linarith
  with Suc.prems(2) have "clock s + 1000000 \<le> start_time + 10000000" by linarith
  with Suc.prems(1) have due: "nothing_due 1000000 s"
    by (cases "inbox s") (auto simp: nothing_due_def)
  let ?s1 = "s\<lparr>clock := clock s + 1000000, trace := trace s @ [Print Dot]\<rparr>"
  from sec k have step: "listen_loop start_time n s = listen_loop start_time n ?s1"
    by (subst listen_loop.simps) (simp add: timeout_def listen_step_timeout [OF due])
  from Suc.prems(2) have c1: "clock ?s1 = start_time + Suc k * 1000000" by simp
  from Suc.prems(1) have q1: "inbox ?s1 = [] \<or> start_time + 10000000 \<le> fst (hd (inbox ?s1))"
    by simp
  from k have k1: "Suc k \<le> 10" by linarith
  from k have r: "Print Dot # replicate (10 - Suc k) (Print Dot) = replicate (10 - k) (Print Dot)"
    by (simp add: Suc_diff_Suc flip: replicate_Suc)
  have "listen_loop start_time n ?s1 =
     Val n (?s1\<lparr>clock := start_time + 10000000,
              trace := trace ?s1 @ replicate (10 - Suc k) (Print Dot)\<rparr>)"
    using j q1 c1 k1 by (rule Suc.hyps(1))
  with step r show ?case by simp
qed


lemma silent_until_hd: "silent_until d evs \<Longrightarrow> evs = [] \<or> d \<le> fst (hd evs)"
  by (cases evs) (auto simp: silent_until_def)

lemma listen_silent:
  assumes "inbox s = [] \<or> clock s + 10000000 \<le> fst (hd (inbox s))"
  shows "listen s = Val () (s\<lparr>clock := clock s + 10000000,
      trace := trace s @ Print (ListeningFor 10) # replicate 10 (Print Dot)
                 @ [Print (ReceivedIn 0 10)]\<rparr>)"
proof -
  let ?s1 = "s\<lparr>trace := trace s @ [Print (ListeningFor 10)]\<rparr>"
  have "listen_loop (clock s) 0 ?s1 =
     Val 0 (?s1\<lparr>clock := clock s + 10000000,
              trace := trace ?s1 @ replicate (10 - 0) (Print Dot)\<rparr>)"
    using assms by (intro listen_loop_silent) simp_all
  then show ?thesis
    by (simp add: listen_def bnd_def print_def emit_def now_def timeout_def)
qed

lemma listen_step_closed:
  assumes "inbox s = (a, PeerClose) # rest" and "a < clock s + 1000000"
  shows "listen_step n s = Exc ConnectionClosed (s\<lparr>clock := max (clock s) a\<rparr>)"
  using assms by (simp add: listen_step_def except_timeout_def bnd_def recv_within_def)

lemma listen_step_rejected:
  assumes "inbox s = (a, Frame (Rejected why)) # rest" and "a < clock s + 1000000"
  shows "listen_step n s = Exc (raised why) (s\<lparr>clock := max (clock s) a, inbox := rest\<rparr>)"
  using assms
  by (simp add: listen_step_def except_timeout_def bnd_def recv_within_def lift_def
      raised_no_timeout)

lemma listen_step_untyped:
  assumes "inbox s = (a, Frame (Decodable (JObj kvs))) # rest" and "a < clock s + 1000000"
    and "map_of kvs ''type'' = None"
  shows "listen_step n s = Val (n + 1) (s\<lparr>clock := max (clock s) a, inbox := rest,
            trace := trace s @ [Print (OtherMessage JNull (JObj kvs))]\<rparr>)"
  using assms
  by (simp add: listen_step_def except_timeout_def bnd_def recv_within_def lift_def
      get_none_def print_def emit_def)

lemma drain_step_timeout:
  "nothing_due 1000000 s \<Longrightarrow> drain_step s = Exc TimeoutError (s\<lparr>clock := clock s + 1000000\<rparr>)"
  by (simp add: drain_step_def bnd_def recv_within_nothing_due)

lemma drain_step_closed:
  assumes "inbox s = (a, PeerClose) # rest" and "a < clock s + 1000000"
  shows "drain_step s = Exc ConnectionClosed (s\<lparr>clock := max (clock s) a\<rparr>)"
  using assms by (simp add: drain_step_def bnd_def recv_within_def)

lemma drain_step_rejected:
  assumes "inbox s = (a, Frame (Rejected why)) # rest" and "a < clock s + 1000000"
  shows "drain_step s = Exc (raised why) (s\<lparr>clock := max (clock s) a, inbox := rest\<rparr>)"
  using assms by (simp add: drain_step_def bnd_def recv_within_def lift_def)

lemma drain_step_untyped:
  assumes "inbox s = (a, Frame (Decodable (JObj kvs))) # rest" and "a < clock s + 1000000"
    and "map_of kvs ''type'' = None"
  shows "drain_step s = Exc (KeyError ''type'') (s\<lparr>clock := max (clock s) a, inbox := rest\<rparr>)"
  using assms by (simp add: drain_step_def bnd_def recv_within_def lift_def)

lemma ten_times: "replicate 10 x = [x, x, x, x, x, x, x, x, x, x]"
  by (simp add: numeral_eq_Suc)

lemma recv_within_closed:
  assumes "inbox s = (a, PeerClose) # rest" and "a < clock s + t"
  shows "recv_within t s = Exc ConnectionClosed (s\<lparr>clock := max (clock s) a\<rparr>)"
  using assms by (simp add: recv_within_def)

lemma drain_timeout:
  assumes "nothing_due 1000000 s"
  shows "except_timeout (for_range (Suc k) drain_step) (print NoMoreMessages) s =
     Val () (s\<lparr>clock := clock s + 1000000, trace := trace s @ [Print NoMoreMessages]\<rparr>)"
  by (simp add: except_timeout_def bnd_def drain_step_timeout [OF assms] print_def emit_def)

lemma drain_closed:
  assumes "inbox s = (a, PeerClose) # rest" and "a < clock s + 1000000"
  shows "except_timeout (for_range (Suc k) drain_step) (print NoMoreMessages) s =
     Exc ConnectionClosed (s\<lparr>clock := max (clock s) a\<rparr>)"
  by (simp add: except_timeout_def bnd_def drain_step_closed [OF assms])

lemma listen_loop_timeout:
  assumes "seconds (clock s - start_time) < timeout" and "nothing_due 1000000 s"
  shows "listen_loop start_time n s =
     listen_loop start_time n (s\<lparr>clock := clock s + 1000000, trace := trace s @ [Print Dot]\<rparr>)"
  by (subst listen_loop.simps) (simp add: assms(1) listen_step_timeout [OF assms(2)])

lemma listen_loop_closed:
  assumes "seconds (clock s - start_time) < timeout"
    and "inbox s = (a, PeerClose) # rest" and "a < clock s + 1000000"
  shows "listen_loop start_time n s = Exc ConnectionClosed (s\<lparr>clock := max (clock s) a\<rparr>)"
  by (subst listen_loop.simps) (simp add: assms(1) listen_step_closed [OF assms(2,3)])

lemma listen_loop_rejected:
  assumes "seconds (clock s - start_time) < timeout"
    and "inbox s = (a, Frame (Rejected why)) # rest" and "a < clock s + 1000000"
  shows "listen_loop start_time n s =
     Exc (raised why) (s\<lparr>clock := max (clock s) a, inbox := rest\<rparr>)"
  by (subst listen_loop.simps) (simp add: assms(1) listen_step_rejected [OF assms(2,3)])

lemma listen_loop_untyped:
  assumes "seconds (clock s - start_time) < timeout"
    and "inbox s = (a, Frame (Decodable (JObj kvs))) # rest" and "a < clock s + 1000000"
    and "map_of kvs ''type'' = None"
  shows "listen_loop start_time n s =
     listen_loop start_time (n + 1) (s\<lparr>clock := max (clock s) a, inbox := rest,
            trace := trace s @ [Print (OtherMessage JNull (JObj kvs))]\<rparr>)"
  by (subst listen_loop.simps) (simp add: assms(1) listen_step_untyped [OF assms(2,3,4)])

lemma seconds_0: "seconds 0 < timeout"
  by (simp add: seconds_def timeout_def)

lemma websocket_run:
  "test_websocket (start evs) =
     (if closes_by 0 evs then
        Exc ConnectionClosed \<lparr>clock = 0, inbox = evs, trace =
          [Print Connecting, Print Connected, Disconnect]\<rparr>
      else
        case listen_loop 0 0 \<lparr>clock = 0, inbox = evs, trace =
              [Print Connecting, Print Connected, Send get_snapshot, Print RequestedSnapshot,
               Print (ListeningFor timeout)]\<rparr> of
          Val n s' \<Rightarrow> Val () (s'\<lparr>trace := trace s' @ [Print (ReceivedIn n timeout), Disconnect]\<rparr>)
        | Exc e s' \<Rightarrow> Val () (s'\<lparr>trace := trace s' @ [Print (ErrorLine e), Disconnect]\<rparr>)
        | Hang s' \<Rightarrow> Hang s')"
  by (simp add: test_websocket_def websocket_body_def listen_def except_exception_def
      with_connection_def bnd_def print_def send_def emit_def now_def start_def
      split: res.splits)

lemma summaries_append: "summaries (xs @ ys) = summaries xs @ summaries ys"
  by (simp add: summaries_def)

lemma plain_lift: "plain (lift r)"
  by (simp add: plain_def lift_def state_of_def split: sum.splits)

lemma plain_print: "summaries [Print l] = [] \<Longrightarrow> plain (print l)"
  by (simp add: plain_def print_def emit_def state_of_def summaries_append)

lemma plain_Val: "plain (Val v)"
  by (simp add: plain_def state_of_def)

lemma plain_if: "plain a \<Longrightarrow> plain b \<Longrightarrow> plain (if c then a else b)"
  by simp

lemma plain_recv_within: "plain (recv_within t)"
proof -
  have "trace (state_of (deliver a x rest s)) = trace s" for a x rest s
    by (cases x) (simp_all add: state_of_def)
  then show ?thesis
    by (simp add: plain_def recv_within_def state_of_def split: list.splits)
qed

lemma plain_bnd:
  assumes m: "plain m" and f: "\<And>v. plain (f v)"
  shows "plain (bnd m f)"
  unfolding plain_def
proof
  fix s
  from m have ms: "summaries (trace (state_of (m s))) = summaries (trace s)"
    by (simp add: plain_def)
  show "summaries (trace (state_of (bnd m f s))) = summaries (trace s)"
  proof (cases "m s")
    case (Val v s')
    from f [of v] have "summaries (trace (state_of (f v s'))) = summaries (trace s')"
      by (simp add: plain_def)
    with ms Val show ?thesis by (simp add: bnd_def state_of_def)
  next
    case (Exc e s')
    with ms show ?thesis by (simp add: bnd_def state_of_def)
  next
    case (Hang s')
    with ms show ?thesis by (simp add: bnd_def state_of_def)
  qed
qed

lemma plain_except_timeout:
  assumes m: "plain m" and h: "plain h"
  shows "plain (except_timeout m h)"
  unfolding plain_def
proof
  fix s
  from m have ms: "summaries (trace (state_of (m s))) = summaries (trace s)"
    by (simp add: plain_def)
  show "summaries (trace (state_of (except_timeout m h s))) = summaries (trace s)"
  proof (cases "m s")
    case (Val v s')
    with ms show ?thesis by (simp add: except_timeout_def state_of_def)
  next
    case (Exc e s')
    from h have "summaries (trace (state_of (h s'))) = summaries (trace s')"
      by (simp add: plain_def)
    with ms Exc show ?thesis by (simp add: except_timeout_def state_of_def)
  next
    case (Hang s')
    with ms show ?thesis by (simp add: except_timeout_def state_of_def)
  qed
qed

lemma plain_snapshot_report: "plain (snapshot_report data)"
  unfolding snapshot_report_def
  by (intro plain_bnd plain_lift plain_print) (simp_all add: summaries_def)

lemma plain_listen_step: "plain (listen_step n)"
  unfolding listen_step_def
  by (intro plain_except_timeout plain_bnd plain_lift plain_print plain_if plain_Val
        plain_recv_within plain_snapshot_report) (simp_all add: summaries_def)

lemma plain_listen_loop:
  "summaries (trace (state_of (listen_loop start_time n s))) = summaries (trace s)"
proof (induction start_time n s rule: listen_loop.induct)
  case (1 start_time n s)
  from plain_listen_step [of n]
  have step: "summaries (trace (state_of (listen_step n s))) = summaries (trace s)"
    by (simp add: plain_def)
  show ?case
  proof (cases "seconds (clock s - start_time) < timeout")
    case False
    then show ?thesis by (subst listen_loop.simps) (simp add: state_of_def)
  next
    case True
    show ?thesis
    proof (cases "listen_step n s")
      case (Val n' s')
      with True have "listen_loop start_time n s = listen_loop start_time n' s'"
        by (subst listen_loop.simps) simp
      moreover from "1.IH" [OF True Val]
      have "summaries (trace (state_of (listen_loop start_time n' s'))) = summaries (trace s')" .
      moreover from step Val have "summaries (trace s') = summaries (trace s)"
        by (simp add: state_of_def)
      ultimately show ?thesis by simp
    next
      case (Exc e s')
      with True have "listen_loop start_time n s = Exc e s'"
        by (subst listen_loop.simps) simp
      with step Exc show ?thesis by (simp add: state_of_def)
    next
      case (Hang s')
      with True have "listen_loop start_time n s = Hang s'"
        by (subst listen_loop.simps) simp
      with step Hang show ?thesis by (simp add: state_of_def)
    qed
  qed
qed

lemma summaries_listening: "summaries (trace (listening evs)) = []"
  by (simp add: listening_def summaries_def)

lemma reply_count_rejected: "reply_count (Rejected why) = Inl (raised why)"
  by (simp add: reply_count_def)

section \<open>Bounds on the debug script, and which scripts can block\<close>

lemma subscript_no_timeout: "subscript d k \<noteq> Inl TimeoutError"
  by (cases d) (auto split: option.splits)

lemma and_then_no_timeout:
  "r \<noteq> Inl TimeoutError \<Longrightarrow> (\<And>v. f v \<noteq> Inl TimeoutError) \<Longrightarrow> and_then r f \<noteq> Inl TimeoutError"
  by (cases r) auto

lemma particle_count_no_timeout: "particle_count d \<noteq> Inl TimeoutError"
  unfolding particle_count_def
  by (intro and_then_no_timeout subscript_no_timeout py_len_no_timeout)

lemma error_message_no_timeout: "error_message d \<noteq> Inl TimeoutError"
  unfolding error_message_def
  by (intro and_then_no_timeout get_default_no_timeout)

definition after_response :: "frame \<Rightarrow> st \<Rightarrow> unit res" where
  "after_response response =
     bnd (lift (json_loads response)) (\<lambda>data.
     bnd (lift (subscript data ''type'')) (\<lambda>ty.
     bnd (print (Received ty)) (\<lambda>_.
     if ty = JStr ''error'' then
       bnd (lift (error_message data)) (\<lambda>m. print (ErrorMessage m))
     else if ty = JStr ''snapshot'' then
       bnd (lift (particle_count data)) (\<lambda>n. print (SnapshotWith n))
     else Val ())))"

lemma tame_after_response: "tame (after_response response)"
  unfolding after_response_def
  by (intro tame_bnd tame_lift tame_print tame_if tame_Val json_loads_no_timeout
        subscript_no_timeout error_message_no_timeout particle_count_no_timeout)

lemma drain_step_unfold: "drain_step = bnd (recv_within 1000000) after_response"
  by (simp only: drain_step_def after_response_def [abs_def])

lemma taken_none: "inbox s' = inbox s \<Longrightarrow> clock s' \<le> clock s + t \<Longrightarrow> taken n t s s'"
  unfolding taken_def by (intro conjI exI [of _ 0]) simp_all

lemma taken_one:
  "inbox s = ev # rest \<Longrightarrow> inbox s' = rest \<Longrightarrow> clock s' \<le> clock s + t \<Longrightarrow> taken 1 t s s'"
  unfolding taken_def by (intro conjI exI [of _ 1]) simp_all

lemma taken_trans:
  assumes "taken n t s s'" and "taken m u s' s''"
  shows "taken (n + m) (t + u) s s''"
proof -
  from assms(1) obtain k where k: "k \<le> n" "inbox s' = drop k (inbox s)"
    and c: "clock s' \<le> clock s + t"
    by (auto simp: taken_def)
  from assms(2) obtain j where j: "j \<le> m" "inbox s'' = drop j (inbox s')"
    and d: "clock s'' \<le> clock s' + u"
    by (auto simp: taken_def)
  from k j have "k + j \<le> n + m" "inbox s'' = drop (k + j) (inbox s)"
    by (simp_all add: add.commute)
  moreover from c d have "clock s'' \<le> clock s + (t + u)" by linarith
  ultimately show ?thesis unfolding taken_def by blast
qed

lemma taken_mono: "taken n t s s' \<Longrightarrow> n \<le> m \<Longrightarrow> t \<le> u \<Longrightarrow> taken m u s s'"
  unfolding taken_def by (meson add_left_mono le_trans)

lemma recv_within_taken: "taken 1 t s (state_of (recv_within t s))"
proof (cases "inbox s")
  case Nil
  then show ?thesis by (intro taken_none) (simp_all add: recv_within_def state_of_def)
next
  case (Cons ev rest)
  obtain a x where ev: "ev = (a, x)" by (cases ev)
  show ?thesis
  proof (cases "a < clock s + t")
    case False
    with Cons ev show ?thesis
      by (intro taken_none) (simp_all add: recv_within_def state_of_def)
  next
    case True
    then have m: "max (clock s) a \<le> clock s + t" by simp
    show ?thesis
    proof (cases x)
      case (Frame f)
      with Cons ev True m show ?thesis
        by (intro taken_one [of s ev rest]) (simp_all add: recv_within_def state_of_def)
    next
      case PeerClose
      with Cons ev True m show ?thesis
        by (intro taken_none) (simp_all add: recv_within_def state_of_def)
    qed
  qed
qed

lemma tame_taken: "tame m \<Longrightarrow> taken 0 0 s (state_of (m s))"
  by (intro taken_none) (simp_all add: tame_def)

lemma bnd_taken:
  assumes m: "\<And>s. taken n t s (state_of (m s))"
    and f: "\<And>v s. taken k u s (state_of (f v s))"
  shows "taken (n + k) (t + u) s (state_of (bnd m f s))"
proof (cases "m s")
  case (Val v s')
  with m [of s] have "taken n t s s'" by (simp add: state_of_def)
  from taken_trans [OF this f [of s' v]] Val show ?thesis by (simp add: bnd_def)
next
  case (Exc e s')
  with m [of s] have "taken n t s s'" by (simp add: state_of_def)
  then have "taken (n + k) (t + u) s s'" by (rule taken_mono) simp_all
  with Exc show ?thesis by (simp add: bnd_def state_of_def)
next
  case (Hang s')
  with m [of s] have "taken n t s s'" by (simp add: state_of_def)
  then have "taken (n + k) (t + u) s s'" by (rule taken_mono) simp_all
  with Hang show ?thesis by (simp add: bnd_def state_of_def)
qed

lemma drain_step_taken: "taken 1 1000000 s (state_of (drain_step s))"
  using bnd_taken [of 1 1000000 "recv_within 1000000" 0 0 after_response s]
    recv_within_taken tame_taken [OF tame_after_response]
  by (simp add: drain_step_unfold)

lemma for_range_taken: "taken n (n * 1000000) s (state_of (for_range n drain_step s))"
proof (induction n arbitrary: s)
  case 0
  show ?case by (intro taken_none) (simp_all add: state_of_def)
next
  case (Suc n)
  have "taken (1 + n) (1000000 + n * 1000000) s
      (state_of (bnd drain_step (\<lambda>_. for_range n drain_step) s))"
    by (rule bnd_taken) (rule drain_step_taken, rule Suc.IH)
  then show ?case by simp
qed


lemma listen_for_responses_taken: "taken 5 5000000 s (state_of (listen_for_responses s))"
proof -
  from for_range_taken [of 5 s]
  have body: "taken 5 5000000 s (state_of (for_range 5 drain_step s))" by simp
  show ?thesis
  proof (cases "for_range 5 drain_step s")
    case (Val v s')
    with body show ?thesis
      by (simp add: listen_for_responses_def except_timeout_def state_of_def)
  next
    case (Exc e s')
    with body have "taken 5 5000000 s s'" by (simp add: state_of_def)
    then have "taken 5 5000000 s (s'\<lparr>trace := trace s' @ [Print NoMoreMessages]\<rparr>)"
      by (simp add: taken_def)
    with Exc body show ?thesis
      by (simp add: listen_for_responses_def except_timeout_def state_of_def print_def emit_def)
  next
    case (Hang s')
    with body show ?thesis
      by (simp add: listen_for_responses_def except_timeout_def state_of_def)
  qed
qed

lemma tame_send: "tame (send v)"
  by (simp add: tame_def send_def emit_def state_of_def)

lemma with_connection_taken:
  assumes "taken n t s (state_of (body s))"
  shows "taken n t s (state_of (with_connection body s))"
  using assms
  by (cases "body s") (simp_all add: with_connection_def state_of_def taken_def)

lemma debug_body_taken: "taken 5 5000000 s (state_of (debug_body s))"
proof -
  have "taken (0 + (0 + (0 + (0 + (0 + 5))))) (0 + (0 + (0 + (0 + (0 + 5000000))))) s
      (state_of (debug_body s))"
    unfolding debug_body_def
    by (intro bnd_taken tame_taken tame_print tame_send listen_for_responses_taken)
  then show ?thesis by simp
qed


lemma debug_taken: "taken 5 5000000 s (state_of (test_create_particle_debug s))"
proof -
  have "taken (0 + 5) (0 + 5000000) s (state_of (test_create_particle_debug s))"
    unfolding test_create_particle_debug_def
    by (intro bnd_taken tame_taken tame_print with_connection_taken debug_body_taken)
  then show ?thesis by simp
qed

lemma first_timeout_ends:
  assumes "for_range j drain_step s = Val () s1" and "nothing_due 1000000 s1"
  shows "for_range (j + Suc k) drain_step s = Exc TimeoutError (s1\<lparr>clock := clock s1 + 1000000\<rparr>)"
  using assms(1)
proof (induction j arbitrary: s)
  case 0
  then have "s1 = s" by simp
  with assms(2) show ?case by (simp add: bnd_def drain_step_timeout)
next
  case (Suc j)
  from Suc.prems obtain s' where step: "drain_step s = Val () s'"
    and more: "for_range j drain_step s' = Val () s1"
    by (cases "drain_step s") (simp_all add: bnd_def)
  from Suc.IH [OF more] step show ?case by (simp add: bnd_def)
qed

lemma five_split: "j < 5 \<Longrightarrow> 5 = j + Suc (4 - j)"
  by linarith

lemma tame_returns: "tame m \<Longrightarrow> returns m"
  by (simp add: tame_def returns_def)

lemma returns_recv_within: "returns (recv_within t)"
  by (simp add: returns_def recv_within_not_Hang)

lemma returns_bnd: "returns m \<Longrightarrow> (\<And>v. returns (f v)) \<Longrightarrow> returns (bnd m f)"
  by (auto simp: returns_def bnd_def split: res.splits)

lemma returns_except_timeout: "returns m \<Longrightarrow> returns h \<Longrightarrow> returns (except_timeout m h)"
  by (auto simp: returns_def except_timeout_def split: res.splits)

lemma returns_except_exception:
  "returns m \<Longrightarrow> (\<And>e. returns (h e)) \<Longrightarrow> returns (except_exception m h)"
  by (auto simp: returns_def except_exception_def split: res.splits)

lemma returns_with_connection: "returns m \<Longrightarrow> returns (with_connection m)"
  by (auto simp: returns_def with_connection_def split: res.splits)

lemma returns_now: "returns now"
  by (simp add: returns_def now_def)

lemma returns_drain_step: "returns drain_step"
  unfolding drain_step_unfold
  by (intro returns_bnd returns_recv_within tame_returns tame_after_response)

lemma returns_for_range: "returns body \<Longrightarrow> returns (for_range n body)"
proof (induction n)
  case 0
  show ?case by (simp add: returns_def)
next
  case (Suc n)
  then have "returns (bnd body (\<lambda>_. for_range n body))" by (intro returns_bnd) simp_all
  then show ?case by (simp add: returns_def)
qed

lemma returns_listen_step: "returns (listen_step n)"
  unfolding listen_step_unfold
  by (intro returns_except_timeout returns_bnd returns_recv_within tame_returns
        tame_after_message tame_print tame_Val)

lemma listen_loop_not_Hang: "listen_loop start_time n s \<noteq> Hang s'"
proof (induction start_time n s rule: listen_loop.induct)
  case (1 start_time n s)
  show ?case
  proof (cases "seconds (clock s - start_time) < timeout")
    case False
    then show ?thesis by (subst listen_loop.simps) simp
  next
    case True
    show ?thesis
    proof (cases "listen_step n s")
      case (Val n' s1)
      with True have "listen_loop start_time n s = listen_loop start_time n' s1"
        by (subst listen_loop.simps) simp
      with "1.IH" [OF True Val] show ?thesis by simp
    next
      case (Exc e s1)
      with True show ?thesis by (subst listen_loop.simps) simp
    next
      case (Hang s1)
      with returns_listen_step [of n] show ?thesis by (simp add: returns_def)
    qed
  qed
qed

lemma returns_listen_loop: "returns (listen_loop start_time n)"
  by (simp add: returns_def listen_loop_not_Hang)

lemma returns_test_websocket: "returns test_websocket"
  unfolding test_websocket_def websocket_body_def listen_def
  by (intro returns_bnd returns_with_connection returns_except_exception returns_now
        returns_listen_loop tame_returns tame_print tame_send)

lemma returns_test_create_particle_debug: "returns test_create_particle_debug"
  unfolding test_create_particle_debug_def debug_body_def listen_for_responses_def
  by (intro returns_bnd returns_with_connection returns_except_timeout returns_for_range
        returns_drain_step tame_returns tame_print tame_send)


lemma recv_silent: "inbox s = [] \<Longrightarrow> recv s = Hang s"
  by (simp add: recv_def)

lemma create_particle_hangs_1:
  "test_create_particle (start []) =
     Hang \<lparr>clock = 0, inbox = [], trace =
       [Print Connecting, Print Connected, Send get_snapshot]\<rparr>"
  by (simp add: test_create_particle_def create_particle_body_def run_defs)

lemma create_particle_hangs_2:
  assumes "reply_count first = Inr initial_count"
  shows "\<exists>c. test_create_particle (start [(ta, Frame first)]) =
     Hang \<lparr>clock = c, inbox = [], trace =
       [Print Connecting, Print Connected, Send get_snapshot,
        Print (InitialCount initial_count), Print CreatingProton,
        Send (create_msg ''proton'' 5), Send get_snapshot]\<rparr>"
  unfolding test_create_particle_def create_particle_body_def reply_count_lift
  by (simp add: run_defs assms)

lemma create_particle_hangs_3:
  assumes "reply_count first = Inr initial_count" and "reply_count second = Inr new_count"
  shows "\<exists>c. test_create_particle (start [(ta, Frame first), (tb, Frame second)]) =
     Hang \<lparr>clock = c, inbox = [], trace =
       [Print Connecting, Print Connected, Send get_snapshot,
        Print (InitialCount initial_count), Print CreatingProton,
        Send (create_msg ''proton'' 5), Send get_snapshot, Print (NewCount new_count),
        Print (if initial_count < new_count then ParticleCreated else ParticleCreationFailed),
        Print CreatingNeutron, Send (create_msg ''neutron'' (- 5)), Send get_snapshot]\<rparr>"
  unfolding test_create_particle_def create_particle_body_def reply_count_lift
  by (simp add: run_defs assms)

lemma silent_until_open: "silent_until d evs \<Longrightarrow> c < d \<Longrightarrow> \<not> closes_by c evs"
  by (induction evs) (auto simp: silent_until_def closes_by_def)

lemma for_range_raises:
  assumes "for_range j body s = Val () s1" and "body s1 = Exc e s2"
  shows "for_range (j + Suc k) body s = Exc e s2"
  using assms(1)
proof (induction j arbitrary: s)
  case 0
  then have "s1 = s" by simp
  with assms(2) show ?case by (simp add: bnd_def)
next
  case (Suc j)
  from Suc.prems obtain s' where step: "body s = Val () s'"
    and more: "for_range j body s' = Val () s1"
    by (cases "body s") (simp_all add: bnd_def)
  from Suc.IH [OF more] step show ?case by (simp add: bnd_def)
qed

lemma listen_for_responses_raises:
  assumes j: "j < 5" and ran: "for_range j drain_step s = Val () s1"
    and raises: "drain_step s1 = Exc e s2" and other: "e \<noteq> TimeoutError"
  shows "listen_for_responses s = Exc e s2"
proof -
  have "for_range (j + Suc (4 - j)) drain_step s = Exc e s2"
    using ran raises by (rule for_range_raises)
  then have "for_range 5 drain_step s = Exc e s2"
    by (simp only: five_split [OF j, symmetric])
  with other show ?thesis by (simp add: listen_for_responses_def except_timeout_def)
qed

lemma debug_run:
  assumes "\<not> closes_by 0 evs"
  shows "test_create_particle_debug (start evs) =
     (case listen_for_responses (responding evs) of
        Val v s' \<Rightarrow> Val v (s'\<lparr>trace := trace s' @ [Disconnect]\<rparr>)
      | Exc e s' \<Rightarrow> Exc e (s'\<lparr>trace := trace s' @ [Disconnect]\<rparr>)
      | Hang s' \<Rightarrow> Hang s')"
  using assms
  by (simp add: test_create_particle_debug_def debug_body_def responding_def
      with_connection_def bnd_def print_def send_def emit_def start_def)

lemma debug_raises:
  assumes "\<not> closes_by 0 evs" and "j < 5"
    and "for_range j drain_step (responding evs) = Val () s1"
    and "drain_step s1 = Exc e s2" and "e \<noteq> TimeoutError"
  shows "test_create_particle_debug (start evs) = Exc e (s2\<lparr>trace := trace s2 @ [Disconnect]\<rparr>)"
  using listen_for_responses_raises [OF assms(2-5)]
  by (simp add: debug_run [OF assms(1)])

lemma websocket_error:
  assumes "\<not> closes_by 0 evs" and "listen_loop 0 0 (listening evs) = Exc e s'"
  shows "test_websocket (start evs) =
     Val () (s'\<lparr>trace := trace s' @ [Print (ErrorLine e), Disconnect]\<rparr>)"
  using assms unfolding listening_def by (simp add: websocket_run)

section \<open>The claims\<close>

text \<open>
  C1, as the specification states it: if the first particle-count check fails, the
  neutron-creation steps are not executed. The script does otherwise: with counts 1, 1
  and 2 the first check fails, and the neutron is still created and the final snapshot
  requested.
\<close>

theorem fail_fast_counterexample:
  "trace (state_of (test_create_particle (start
      [(0, Frame (snapshot_frame 1)), (0, Frame (snapshot_frame 1)),
       (0, Frame (snapshot_frame 2))]))) =
     [Print Connecting, Print Connected, Send get_snapshot, Print (InitialCount 1),
      Print CreatingProton, Send (create_msg ''proton'' 5), Send get_snapshot,
      Print (NewCount 1), Print ParticleCreationFailed,
      Print CreatingNeutron, Send (create_msg ''neutron'' (- 5)), Send get_snapshot,
      Print (FinalCount 2), Print SecondParticleCreated, Disconnect]"
  using create_particle_run [OF refl reply_count_snapshot_frame reply_count_snapshot_frame
      reply_count_snapshot_frame, where ta = 0 and tb = 0 and tc = 0 and rest = "[]"
      and initial_count = 1 and new_count = 1 and final_count = 2]
  by (auto simp: state_of_def)

text \<open>
  C1, amended: the two-creation script has no fail-fast; a failed check only prints its
  failure line. Whenever the three replies are values with a particle count, and the
  peer has not closed the connection by the time of the last send, the script prints
  the verdict of the first check, success or failure, goes on to create the neutron and
  to request the final snapshot, prints the second verdict and returns normally: all
  five messages are sent, whatever the counts are.
\<close>

theorem every_step_runs:
  assumes "reply_count first = Inr initial_count" and "reply_count second = Inr new_count"
    and "reply_count third = Inr final_count"
    and "\<not> closes_by (max (ta + 500000) tb + 500000) rest"
  shows "\<exists>s'. test_create_particle
            (start ((ta, Frame first) # (tb, Frame second) # (tc, Frame third) # rest))
            = Val () s' \<and>
          trace s' =
            [Print Connecting, Print Connected, Send get_snapshot,
             Print (InitialCount initial_count), Print CreatingProton,
             Send (create_msg ''proton'' 5), Send get_snapshot, Print (NewCount new_count),
             Print (if initial_count < new_count then ParticleCreated
                    else ParticleCreationFailed),
             Print CreatingNeutron, Send (create_msg ''neutron'' (- 5)), Send get_snapshot,
             Print (FinalCount final_count),
             Print (if new_count < final_count then SecondParticleCreated
                    else SecondParticleCreationFailed),
             Disconnect] \<and>
          sends (trace s') =
            [get_snapshot, create_msg ''proton'' 5, get_snapshot,
             create_msg ''neutron'' (- 5), get_snapshot]"
  using create_particle_run [OF refl assms, of tc]
  by (auto simp: sends_def)

theorem every_step_runs_witness:
  "reply_count (snapshot_frame 4) = Inr 4 \<and>
   \<not> closes_by (max (0 + 500000) 0 + 500000) [(2000000, PeerClose)] \<and>
   (\<exists>s'. test_create_particle (start
        [(0, Frame (snapshot_frame 4)), (0, Frame (snapshot_frame 4)),
         (0, Frame (snapshot_frame 4)), (2000000, PeerClose)]) = Val () s' \<and>
      trace s' =
        [Print Connecting, Print Connected, Send get_snapshot, Print (InitialCount 4),
         Print CreatingProton, Send (create_msg ''proton'' 5), Send get_snapshot,
         Print (NewCount 4), Print ParticleCreationFailed,
         Print CreatingNeutron, Send (create_msg ''neutron'' (- 5)), Send get_snapshot,
         Print (FinalCount 4), Print SecondParticleCreationFailed, Disconnect] \<and>
      sends (trace s') =
        [get_snapshot, create_msg ''proton'' 5, get_snapshot,
         create_msg ''neutron'' (- 5), get_snapshot])"
  using every_step_runs
    [where first = "snapshot_frame 4" and second = "snapshot_frame 4"
       and third = "snapshot_frame 4" and initial_count = 4 and new_count = 4
       and final_count = 4 and ta = 0 and tb = 0 and tc = 0
       and rest = "[(2000000, PeerClose)]"]
  by (simp add: reply_count_snapshot_frame)

text \<open>
  C2: each check of the two-creation script is judged against the count read just
  before. When the three replies are values with a particle count and the peer has not
  closed the connection by the time of the last send, the first check passes exactly
  when the count after the proton creation exceeds the initial count, and the second
  passes exactly when the count after the neutron creation exceeds the count read after
  the first creation.
\<close>

theorem checks_use_own_baseline:
  assumes "reply_count first = Inr initial_count" and "reply_count second = Inr new_count"
    and "reply_count third = Inr final_count"
    and "\<not> closes_by (max (ta + 500000) tb + 500000) rest"
    and "tr = trace (state_of (test_create_particle
            (start ((ta, Frame first) # (tb, Frame second) # (tc, Frame third) # rest))))"
  shows "(Print ParticleCreated \<in> set tr \<longleftrightarrow> initial_count < new_count) \<and>
         (Print ParticleCreationFailed \<in> set tr \<longleftrightarrow> \<not> initial_count < new_count) \<and>
         (Print SecondParticleCreated \<in> set tr \<longleftrightarrow> new_count < final_count) \<and>
         (Print SecondParticleCreationFailed \<in> set tr \<longleftrightarrow> \<not> new_count < final_count)"
proof -
  from create_particle_run [OF refl assms(1-4), of tc] assms(5)
  have "tr = [Print Connecting, Print Connected, Send get_snapshot,
        Print (InitialCount initial_count), Print CreatingProton,
        Send (create_msg ''proton'' 5), Send get_snapshot, Print (NewCount new_count),
        Print (if initial_count < new_count then ParticleCreated else ParticleCreationFailed),
        Print CreatingNeutron, Send (create_msg ''neutron'' (- 5)), Send get_snapshot,
        Print (FinalCount final_count),
        Print (if new_count < final_count then SecondParticleCreated
               else SecondParticleCreationFailed),
        Disconnect]"
    by (auto simp: state_of_def)
  then show ?thesis
    by (cases "initial_count < new_count"; cases "new_count < final_count"; simp)
qed

theorem checks_use_own_baseline_witness:
  "reply_count (snapshot_frame 1) = Inr 1 \<and> reply_count (snapshot_frame 3) = Inr 3 \<and>
   reply_count (snapshot_frame 2) = Inr 2 \<and>
   \<not> closes_by (max (0 + 500000) 500000 + 500000) [(3000000, PeerClose)] \<and>
   Print ParticleCreated \<in> set (trace (state_of (test_create_particle (start
      [(0, Frame (snapshot_frame 1)), (500000, Frame (snapshot_frame 3)),
       (1000000, Frame (snapshot_frame 2)), (3000000, PeerClose)])))) \<and>
   Print SecondParticleCreationFailed \<in> set (trace (state_of (test_create_particle (start
      [(0, Frame (snapshot_frame 1)), (500000, Frame (snapshot_frame 3)),
       (1000000, Frame (snapshot_frame 2)), (3000000, PeerClose)]))))"
  using checks_use_own_baseline
    [where first = "snapshot_frame 1" and second = "snapshot_frame 3"
       and third = "snapshot_frame 2" and initial_count = 1 and new_count = 3
       and final_count = 2 and ta = 0 and tb = 500000 and tc = 1000000
       and rest = "[(3000000, PeerClose)]", OF _ _ _ _ refl]
  by (simp add: reply_count_snapshot_frame)

text \<open>
  C4, as the specification states it: no receive can block indefinitely when the service
  sends nothing and keeps the connection open. The two-creation script does: its
  receives have no deadline, and against a silent service it blocks at the first one.
\<close>

theorem unbounded_receive_counterexample:
  "test_create_particle (start []) =
     Hang \<lparr>clock = 0, inbox = [], trace =
       [Print Connecting, Print Connected, Send get_snapshot]\<rparr>"
  by (rule create_particle_hangs_1)

text \<open>
  C4, amended: the receives of the listener and of the debug script are bounded by their
  wait, so these two scripts never block forever. The three receives of the two-creation
  script have no deadline: when the service falls silent with the connection open, before
  the first, the second or the third reply, the script blocks at that receive forever.
\<close>

theorem which_receives_are_bounded:
  "recv_within t s \<noteq> Hang s' \<and> clock (state_of (recv_within t s)) \<le> clock s + t \<and>
   test_websocket s \<noteq> Hang s' \<and> test_create_particle_debug s \<noteq> Hang s' \<and>
   (inbox s = [] \<longrightarrow> recv s = Hang s) \<and>
   (\<exists>s'. test_create_particle (start []) = Hang s') \<and>
   (reply_count first = Inr initial_count \<longrightarrow>
      (\<exists>s'. test_create_particle (start [(ta, Frame first)]) = Hang s')) \<and>
   (reply_count first = Inr initial_count \<and> reply_count second = Inr new_count \<longrightarrow>
      (\<exists>s'. test_create_particle (start [(ta, Frame first), (tb, Frame second)]) = Hang s'))"
proof (intro conjI impI)
  show "recv_within t s \<noteq> Hang s'" by (rule recv_within_not_Hang)
  from recv_within_taken [of t s]
  show "clock (state_of (recv_within t s)) \<le> clock s + t" by (simp add: taken_def)
  from returns_test_websocket show "test_websocket s \<noteq> Hang s'" by (simp add: returns_def)
  from returns_test_create_particle_debug show "test_create_particle_debug s \<noteq> Hang s'"
    by (simp add: returns_def)
  show "\<exists>s'. test_create_particle (start []) = Hang s'"
    using create_particle_hangs_1 by blast
next
  assume "inbox s = []"
  then show "recv s = Hang s" by (rule recv_silent)
next
  assume "reply_count first = Inr initial_count"
  from create_particle_hangs_2 [OF this, of ta]
  show "\<exists>s'. test_create_particle (start [(ta, Frame first)]) = Hang s'" by blast
next
  assume "reply_count first = Inr initial_count \<and> reply_count second = Inr new_count"
  then have "reply_count first = Inr initial_count" "reply_count second = Inr new_count"
    by simp_all
  from create_particle_hangs_3 [OF this, of ta tb]
  show "\<exists>s'. test_create_particle (start [(ta, Frame first), (tb, Frame second)]) = Hang s'"
    by blast
qed

theorem which_receives_are_bounded_witness:
  "inbox (start []) = [] \<and> recv (start []) = Hang (start []) \<and>
   reply_count (snapshot_frame 1) = Inr 1 \<and> reply_count (snapshot_frame 2) = Inr 2 \<and>
   (\<exists>s'. test_create_particle (start [(0, Frame (snapshot_frame 1))]) = Hang s') \<and>
   (\<exists>s'. test_create_particle
       (start [(0, Frame (snapshot_frame 1)), (600000, Frame (snapshot_frame 2))]) = Hang s')"
  using which_receives_are_bounded
      [where s = "start []" and first = "snapshot_frame 1" and second = "snapshot_frame 2"
         and initial_count = 1 and new_count = 2 and ta = 0 and tb = 600000]
  by (simp add: reply_count_snapshot_frame start_def)

text \<open>
  C5, as the specification states it: a frame whose decoded value lacks \<^verbatim>\<open>type\<close> is
  never accepted. The listener does accept it: the frame \<^verbatim>\<open>{"payload": {}}\<close> is
  counted as a message and reported with the type \<^verbatim>\<open>None\<close>.
\<close>

theorem untyped_frame_counterexample:
  "test_websocket (start [(0, Frame (Decodable (JObj [(''payload'', JObj [])])))]) =
     Val () \<lparr>clock = 10000000, inbox = [], trace =
       [Print Connecting, Print Connected, Send get_snapshot, Print RequestedSnapshot,
        Print (ListeningFor 10),
        Print (OtherMessage JNull (JObj [(''payload'', JObj [])])),
        Print Dot, Print Dot, Print Dot, Print Dot, Print Dot,
        Print Dot, Print Dot, Print Dot, Print Dot, Print Dot,
        Print (ReceivedIn 1 10), Disconnect]\<rparr>"
proof -
  let ?s = "\<lparr>clock = 0, inbox = [(0, Frame (Decodable (JObj [(''payload'', JObj [])])))],
     trace = [Print Connecting, Print Connected, Send get_snapshot, Print RequestedSnapshot,
               Print (ListeningFor timeout)]\<rparr>"
  let ?s1 = "?s\<lparr>clock := max (clock ?s) 0, inbox := [],
            trace := trace ?s @ [Print (OtherMessage JNull (JObj [(''payload'', JObj [])]))]\<rparr>"
  have "listen_loop 0 0 ?s = listen_loop 0 (0 + 1) ?s1"
    by (rule listen_loop_untyped) (simp_all add: seconds_0)
  also have "\<dots> = Val (0 + 1) (?s1\<lparr>clock := 0 + 10000000,
              trace := trace ?s1 @ replicate (10 - 0) (Print Dot)\<rparr>)"
    by (rule listen_loop_silent) simp_all
  finally show ?thesis
    by (simp add: websocket_run ten_times timeout_def)
qed

text \<open>
  C5, amended: a frame that \<^verbatim>\<open>json.loads\<close> rejects makes it raise
  (\<^verbatim>\<open>JSONDecodeError\<close>, or \<^verbatim>\<open>ValueError\<close>, \<^verbatim>\<open>RecursionError\<close> or
  \<^verbatim>\<open>UnicodeDecodeError\<close>), in every script and at whichever receive reads the
  frame, and the frame is neither counted nor reported as a message: the two-creation
  script leaves the exception unhandled at its first, second or third receive, the
  debug script leaves it unhandled at any pass of its loop, and the listener leaves its
  loop at any pass and prints the error. A decoded dict without \<^verbatim>\<open>type\<close> is rejected
  in the debug script, where the type is subscripted (\<^verbatim>\<open>KeyError\<close>, unhandled, at
  any pass); the listener reads the type with \<^verbatim>\<open>data.get\<close>, counts the frame as a
  message, reports it with the type \<^verbatim>\<open>None\<close> and goes on.
\<close>

theorem frames_that_are_not_envelopes:
  "(\<not> closes_by 0 rest \<longrightarrow>
      test_create_particle (start ((t, Frame (Rejected why)) # rest)) =
        Exc (raised why) \<lparr>clock = t, inbox = rest, trace =
          [Print Connecting, Print Connected, Send get_snapshot, Disconnect]\<rparr>) \<and>
   (reply_count first = Inr initial_count \<and> \<not> closes_by (ta + 500000) rest \<longrightarrow>
      (\<exists>c. test_create_particle (start ((ta, Frame first) # (t, Frame (Rejected why)) # rest)) =
        Exc (raised why) \<lparr>clock = c, inbox = rest, trace =
          [Print Connecting, Print Connected, Send get_snapshot,
           Print (InitialCount initial_count),
           Print CreatingProton, Send (create_msg ''proton'' 5), Send get_snapshot,
           Disconnect]\<rparr>)) \<and>
   (reply_count first = Inr initial_count \<and> reply_count second = Inr new_count \<and>
    \<not> closes_by (max (ta + 500000) tb + 500000) rest \<longrightarrow>
      (\<exists>c. test_create_particle
            (start ((ta, Frame first) # (tb, Frame second) # (t, Frame (Rejected why)) # rest)) =
        Exc (raised why) \<lparr>clock = c, inbox = rest, trace =
          [Print Connecting, Print Connected, Send get_snapshot,
           Print (InitialCount initial_count),
           Print CreatingProton, Send (create_msg ''proton'' 5), Send get_snapshot,
           Print (NewCount new_count),
           Print (if initial_count < new_count then ParticleCreated
                  else ParticleCreationFailed),
           Print CreatingNeutron, Send (create_msg ''neutron'' (- 5)), Send get_snapshot,
           Disconnect]\<rparr>)) \<and>
   (seconds (clock s - start_time) < timeout \<and>
    inbox s = (a, Frame (Rejected why)) # rest \<and> a < clock s + 1000000 \<longrightarrow>
      listen_loop start_time n s =
        Exc (raised why) (s\<lparr>clock := max (clock s) a, inbox := rest\<rparr>)) \<and>
   (\<not> closes_by 0 evs \<and> listen_loop 0 0 (listening evs) = Exc e s' \<longrightarrow>
      test_websocket (start evs) =
        Val () (s'\<lparr>trace := trace s' @ [Print (ErrorLine e), Disconnect]\<rparr>)) \<and>
   (\<not> closes_by 0 evs \<and> j < 5 \<and> for_range j drain_step (responding evs) = Val () s1 \<and>
    inbox s1 = (a, Frame (Rejected why)) # rest \<and> a < clock s1 + 1000000 \<longrightarrow>
      test_create_particle_debug (start evs) =
        Exc (raised why) (s1\<lparr>clock := max (clock s1) a, inbox := rest,
           trace := trace s1 @ [Disconnect]\<rparr>)) \<and>
   (seconds (clock s - start_time) < timeout \<and>
    inbox s = (a, Frame (Decodable (JObj kvs))) # rest \<and> a < clock s + 1000000 \<and>
    map_of kvs ''type'' = None \<longrightarrow>
      listen_loop start_time n s =
        listen_loop start_time (n + 1) (s\<lparr>clock := max (clock s) a, inbox := rest,
           trace := trace s @ [Print (OtherMessage JNull (JObj kvs))]\<rparr>)) \<and>
   (\<not> closes_by 0 evs \<and> j < 5 \<and> for_range j drain_step (responding evs) = Val () s1 \<and>
    inbox s1 = (a, Frame (Decodable (JObj kvs))) # rest \<and> a < clock s1 + 1000000 \<and>
    map_of kvs ''type'' = None \<longrightarrow>
      test_create_particle_debug (start evs) =
        Exc (KeyError ''type'') (s1\<lparr>clock := max (clock s1) a, inbox := rest,
           trace := trace s1 @ [Disconnect]\<rparr>))"
proof (intro conjI impI; (elim conjE)?)
  assume "\<not> closes_by 0 rest"
  with reply_count_rejected
  show "test_create_particle (start ((t, Frame (Rejected why)) # rest)) =
        Exc (raised why) \<lparr>clock = t, inbox = rest, trace =
          [Print Connecting, Print Connected, Send get_snapshot, Disconnect]\<rparr>"
    by (rule create_particle_raises_1)
next
  assume "reply_count first = Inr initial_count" and "\<not> closes_by (ta + 500000) rest"
  from this(1) reply_count_rejected this(2)
  show "\<exists>c. test_create_particle (start ((ta, Frame first) # (t, Frame (Rejected why)) # rest)) =
        Exc (raised why) \<lparr>clock = c, inbox = rest, trace =
          [Print Connecting, Print Connected, Send get_snapshot,
           Print (InitialCount initial_count),
           Print CreatingProton, Send (create_msg ''proton'' 5), Send get_snapshot,
           Disconnect]\<rparr>"
    by (rule create_particle_raises_2)
next
  assume "reply_count first = Inr initial_count" and "reply_count second = Inr new_count"
    and "\<not> closes_by (max (ta + 500000) tb + 500000) rest"
  from this(1,2) reply_count_rejected this(3)
  show "\<exists>c. test_create_particle
            (start ((ta, Frame first) # (tb, Frame second) # (t, Frame (Rejected why)) # rest)) =
        Exc (raised why) \<lparr>clock = c, inbox = rest, trace =
          [Print Connecting, Print Connected, Send get_snapshot,
           Print (InitialCount initial_count),
           Print CreatingProton, Send (create_msg ''proton'' 5), Send get_snapshot,
           Print (NewCount new_count),
           Print (if initial_count < new_count then ParticleCreated
                  else ParticleCreationFailed),
           Print CreatingNeutron, Send (create_msg ''neutron'' (- 5)), Send get_snapshot,
           Disconnect]\<rparr>"
    by (rule create_particle_raises_3)
next
  assume "seconds (clock s - start_time) < timeout"
    and "inbox s = (a, Frame (Rejected why)) # rest" and "a < clock s + 1000000"
  then show "listen_loop start_time n s =
        Exc (raised why) (s\<lparr>clock := max (clock s) a, inbox := rest\<rparr>)"
    by (rule listen_loop_rejected)
next
  assume "\<not> closes_by 0 evs" and "listen_loop 0 0 (listening evs) = Exc e s'"
  then show "test_websocket (start evs) =
        Val () (s'\<lparr>trace := trace s' @ [Print (ErrorLine e), Disconnect]\<rparr>)"
    by (rule websocket_error)
next
  assume op: "\<not> closes_by 0 evs" and j: "j < 5"
    and ran: "for_range j drain_step (responding evs) = Val () s1"
    and frame: "inbox s1 = (a, Frame (Rejected why)) # rest" and soon: "a < clock s1 + 1000000"
  from frame soon
  have "drain_step s1 = Exc (raised why) (s1\<lparr>clock := max (clock s1) a, inbox := rest\<rparr>)"
    by (rule drain_step_rejected)
  from debug_raises [OF op j ran this raised_no_timeout]
  show "test_create_particle_debug (start evs) =
        Exc (raised why) (s1\<lparr>clock := max (clock s1) a, inbox := rest,
           trace := trace s1 @ [Disconnect]\<rparr>)"
    by simp
next
  assume "seconds (clock s - start_time) < timeout"
    and "inbox s = (a, Frame (Decodable (JObj kvs))) # rest" and "a < clock s + 1000000"
    and "map_of kvs ''type'' = None"
  then show "listen_loop start_time n s =
        listen_loop start_time (n + 1) (s\<lparr>clock := max (clock s) a, inbox := rest,
           trace := trace s @ [Print (OtherMessage JNull (JObj kvs))]\<rparr>)"
    by (rule listen_loop_untyped)
next
  assume op: "\<not> closes_by 0 evs" and j: "j < 5"
    and ran: "for_range j drain_step (responding evs) = Val () s1"
    and frame: "inbox s1 = (a, Frame (Decodable (JObj kvs))) # rest"
    and soon: "a < clock s1 + 1000000" and untyped: "map_of kvs ''type'' = None"
  from frame soon untyped
  have "drain_step s1 = Exc (KeyError ''type'') (s1\<lparr>clock := max (clock s1) a, inbox := rest\<rparr>)"
    by (rule drain_step_untyped)
  from debug_raises [OF op j ran this]
  show "test_create_particle_debug (start evs) =
        Exc (KeyError ''type'') (s1\<lparr>clock := max (clock s1) a, inbox := rest,
           trace := trace s1 @ [Disconnect]\<rparr>)"
    by simp
qed

theorem frames_that_are_not_envelopes_witness:
  "\<not> closes_by 0 [] \<and> \<not> closes_by (0 + 500000) [] \<and>
   \<not> closes_by (max (0 + 500000) 0 + 500000) [] \<and>
   \<not> closes_by 0 [(5, Frame (Rejected DigitLimit))] \<and>
   reply_count (snapshot_frame 1) = Inr 1 \<and> reply_count (snapshot_frame 2) = Inr 2 \<and>
   test_create_particle (start [(5, Frame (Rejected DigitLimit))]) =
     Exc ValueError \<lparr>clock = 5, inbox = [], trace =
       [Print Connecting, Print Connected, Send get_snapshot, Disconnect]\<rparr> \<and>
   (\<exists>c. test_create_particle (start
      [(0, Frame (snapshot_frame 1)), (0, Frame (snapshot_frame 2)),
       (5, Frame (Rejected DigitLimit))]) =
     Exc ValueError \<lparr>clock = c, inbox = [], trace =
       [Print Connecting, Print Connected, Send get_snapshot, Print (InitialCount 1),
        Print CreatingProton, Send (create_msg ''proton'' 5), Send get_snapshot,
        Print (NewCount 2), Print ParticleCreated,
        Print CreatingNeutron, Send (create_msg ''neutron'' (- 5)), Send get_snapshot,
        Disconnect]\<rparr>) \<and>
   listen_loop 0 0 (listening [(5, Frame (Rejected DigitLimit))]) =
     Exc ValueError ((listening [(5, Frame (Rejected DigitLimit))])\<lparr>clock := 5, inbox := []\<rparr>) \<and>
   test_websocket (start [(5, Frame (Rejected DigitLimit))]) =
     Val () \<lparr>clock = 5, inbox = [], trace =
       [Print Connecting, Print Connected, Send get_snapshot, Print RequestedSnapshot,
        Print (ListeningFor 10), Print (ErrorLine ValueError), Disconnect]\<rparr> \<and>
   (0::nat) < 5 \<and>
   for_range 0 drain_step (responding [(5, Frame (Rejected DigitLimit))]) =
     Val () (responding [(5, Frame (Rejected DigitLimit))]) \<and>
   test_create_particle_debug (start [(5, Frame (Rejected DigitLimit))]) =
     Exc ValueError \<lparr>clock = 5, inbox = [], trace =
       [Print Connecting, Print Connected, Print CreatingProton,
        Print (Sending (create_msg ''proton'' 5)), Send (create_msg ''proton'' 5),
        Print ListeningForResponses, Disconnect]\<rparr> \<and>
   map_of [(''payload'', JObj [])] ''type'' = None \<and>
   listen_loop 0 0 (listening [(5, Frame (Decodable (JObj [(''payload'', JObj [])])))]) =
     listen_loop 0 1 \<lparr>clock = 5, inbox = [], trace =
       [Print Connecting, Print Connected, Send get_snapshot, Print RequestedSnapshot,
        Print (ListeningFor 10),
        Print (OtherMessage JNull (JObj [(''payload'', JObj [])]))]\<rparr> \<and>
   test_create_particle_debug (start [(5, Frame (Decodable (JObj [(''payload'', JObj [])])))]) =
     Exc (KeyError ''type'') \<lparr>clock = 5, inbox = [], trace =
       [Print Connecting, Print Connected, Print CreatingProton,
        Print (Sending (create_msg ''proton'' 5)), Send (create_msg ''proton'' 5),
        Print ListeningForResponses, Disconnect]\<rparr>"
proof -
  let ?r = "[(5, Frame (Rejected DigitLimit))]"
  let ?u = "[(5, Frame (Decodable (JObj [(''payload'', JObj [])])))]"
  note r = frames_that_are_not_envelopes
    [where rest = "[]" and t = 5 and why = DigitLimit and first = "snapshot_frame 1"
       and second = "snapshot_frame 2" and initial_count = 1 and new_count = 2
       and ta = 0 and tb = 0 and s = "listening ?r" and start_time = 0 and a = 5 and n = 0
       and evs = ?r and e = ValueError
       and s' = "(listening ?r)\<lparr>clock := 5, inbox := []\<rparr>"
       and j = 0 and ?s1.0 = "responding ?r"]
  note u = frames_that_are_not_envelopes
    [where rest = "[]" and s = "listening ?u" and start_time = 0 and a = 5 and n = 0
       and evs = ?u and j = 0 and ?s1.0 = "responding ?u"
       and kvs = "[(''payload'', JObj [])]"]
  have open_r: "\<not> closes_by 0 ?r" and open_u: "\<not> closes_by 0 ?u"
    and open_e: "\<not> closes_by 0 []" "\<not> closes_by (0 + 500000) []"
      "\<not> closes_by (max (0 + 500000) 0 + 500000) []"
    by simp_all
  have now_r: "seconds (clock (listening ?r) - 0) < timeout"
    and now_u: "seconds (clock (listening ?u) - 0) < timeout"
    by (simp_all add: listening_def seconds_0)
  have in_r: "inbox (listening ?r) = (5, Frame (Rejected DigitLimit)) # []"
    "inbox (responding ?r) = (5, Frame (Rejected DigitLimit)) # []"
    and in_u: "inbox (listening ?u) = (5, Frame (Decodable (JObj [(''payload'', JObj [])]))) # []"
    "inbox (responding ?u) = (5, Frame (Decodable (JObj [(''payload'', JObj [])]))) # []"
    by (simp_all add: listening_def responding_def)
  have soon: "5 < clock (listening ?r) + 1000000" "5 < clock (responding ?r) + 1000000"
    "5 < clock (listening ?u) + 1000000" "5 < clock (responding ?u) + 1000000"
    by (simp_all add: listening_def responding_def)
  have zero: "(0::nat) < 5" by simp
  have ran_r: "for_range 0 drain_step (responding ?r) = Val () (responding ?r)"
    and ran_u: "for_range 0 drain_step (responding ?u) = Val () (responding ?u)"
    by simp_all
  have untyped: "map_of [(''payload'', JObj [])] ''type'' = None" by simp
  have counts: "reply_count (snapshot_frame 1) = Inr 1" "reply_count (snapshot_frame 2) = Inr 2"
    by (rule reply_count_snapshot_frame)+
  from r now_r in_r(1) soon(1)
  have "listen_loop 0 0 (listening ?r) =
      Exc (raised DigitLimit) ((listening ?r)\<lparr>clock := max (clock (listening ?r)) 5, inbox := []\<rparr>)"
    by blast
  then have loop: "listen_loop 0 0 (listening ?r) =
      Exc ValueError ((listening ?r)\<lparr>clock := 5, inbox := []\<rparr>)"
    by (simp add: listening_def)
  from r open_r loop
  have "test_websocket (start ?r) =
     Val () ((listening ?r)\<lparr>clock := 5, inbox := []\<rparr>
       \<lparr>trace := trace ((listening ?r)\<lparr>clock := 5, inbox := []\<rparr>) @
          [Print (ErrorLine ValueError), Disconnect]\<rparr>)"
    by blast
  then have run: "test_websocket (start ?r) =
     Val () \<lparr>clock = 5, inbox = [], trace =
       [Print Connecting, Print Connected, Send get_snapshot, Print RequestedSnapshot,
        Print (ListeningFor 10), Print (ErrorLine ValueError), Disconnect]\<rparr>"
    by (simp add: listening_def timeout_def)
  from r open_e(1)
  have "test_create_particle (start ((5, Frame (Rejected DigitLimit)) # [])) =
        Exc (raised DigitLimit) \<lparr>clock = 5, inbox = [], trace =
          [Print Connecting, Print Connected, Send get_snapshot, Disconnect]\<rparr>"
    by blast
  then have create1: "test_create_particle (start ?r) =
     Exc ValueError \<lparr>clock = 5, inbox = [], trace =
       [Print Connecting, Print Connected, Send get_snapshot, Disconnect]\<rparr>"
    by simp
  from r counts open_e(3)
  have "\<exists>c. test_create_particle
            (start ((0, Frame (snapshot_frame 1)) # (0, Frame (snapshot_frame 2)) #
               (5, Frame (Rejected DigitLimit)) # [])) =
        Exc (raised DigitLimit) \<lparr>clock = c, inbox = [], trace =
          [Print Connecting, Print Connected, Send get_snapshot,
           Print (InitialCount 1),
           Print CreatingProton, Send (create_msg ''proton'' 5), Send get_snapshot,
           Print (NewCount 2),
           Print (if (1::nat) < 2 then ParticleCreated else ParticleCreationFailed),
           Print CreatingNeutron, Send (create_msg ''neutron'' (- 5)), Send get_snapshot,
           Disconnect]\<rparr>"
    by blast
  then have create3: "\<exists>c. test_create_particle (start
      [(0, Frame (snapshot_frame 1)), (0, Frame (snapshot_frame 2)),
       (5, Frame (Rejected DigitLimit))]) =
     Exc ValueError \<lparr>clock = c, inbox = [], trace =
       [Print Connecting, Print Connected, Send get_snapshot, Print (InitialCount 1),
        Print CreatingProton, Send (create_msg ''proton'' 5), Send get_snapshot,
        Print (NewCount 2), Print ParticleCreated,
        Print CreatingNeutron, Send (create_msg ''neutron'' (- 5)), Send get_snapshot,
        Disconnect]\<rparr>"
    by simp
  from r open_r zero ran_r in_r(2) soon(2)
  have "test_create_particle_debug (start ?r) =
        Exc (raised DigitLimit) ((responding ?r)\<lparr>clock := max (clock (responding ?r)) 5,
           inbox := [], trace := trace (responding ?r) @ [Disconnect]\<rparr>)"
    by blast
  then have debug: "test_create_particle_debug (start ?r) =
     Exc ValueError \<lparr>clock = 5, inbox = [], trace =
       [Print Connecting, Print Connected, Print CreatingProton,
        Print (Sending (create_msg ''proton'' 5)), Send (create_msg ''proton'' 5),
        Print ListeningForResponses, Disconnect]\<rparr>"
    by (simp add: responding_def)
  from u now_u in_u(1) soon(3) untyped
  have "listen_loop 0 0 (listening ?u) =
        listen_loop 0 (0 + 1) ((listening ?u)\<lparr>clock := max (clock (listening ?u)) 5,
           inbox := [],
           trace := trace (listening ?u) @
             [Print (OtherMessage JNull (JObj [(''payload'', JObj [])]))]\<rparr>)"
    by blast
  then have listener: "listen_loop 0 0 (listening ?u) =
     listen_loop 0 1 \<lparr>clock = 5, inbox = [], trace =
       [Print Connecting, Print Connected, Send get_snapshot, Print RequestedSnapshot,
        Print (ListeningFor 10),
        Print (OtherMessage JNull (JObj [(''payload'', JObj [])]))]\<rparr>"
    by (simp add: listening_def timeout_def)
  from u open_u zero ran_u in_u(2) soon(4) untyped
  have "test_create_particle_debug (start ?u) =
        Exc (KeyError ''type'') ((responding ?u)\<lparr>clock := max (clock (responding ?u)) 5,
           inbox := [], trace := trace (responding ?u) @ [Disconnect]\<rparr>)"
    by blast
  then have debug_untyped: "test_create_particle_debug (start ?u) =
     Exc (KeyError ''type'') \<lparr>clock = 5, inbox = [], trace =
       [Print Connecting, Print Connected, Print CreatingProton,
        Print (Sending (create_msg ''proton'' 5)), Send (create_msg ''proton'' 5),
        Print ListeningForResponses, Disconnect]\<rparr>"
    by (simp add: responding_def)
  from loop run create1 create3 debug listener debug_untyped counts ran_r show ?thesis
    by simp
qed

text \<open>
  C6: when nothing arrives within the one-second wait, the bounded receive raises
  \<^verbatim>\<open>TimeoutError\<close>, which both loops catch: it neither hangs nor is fatal. A close by
  the peer is a different outcome, and each loop reacts differently to the two: the
  listener prints a dot and goes on after a timeout, and leaves its loop on a close; the
  debug loop ends normally with "No more messages" after a timeout, and lets a close
  propagate.
\<close>

theorem timeout_and_close_are_told_apart:
  "(nothing_due 1000000 s \<longrightarrow>
      recv_within 1000000 s = Exc TimeoutError (s\<lparr>clock := clock s + 1000000\<rparr>) \<and>
      listen_step n s =
        Val n (s\<lparr>clock := clock s + 1000000, trace := trace s @ [Print Dot]\<rparr>) \<and>
      (seconds (clock s - start_time) < timeout \<longrightarrow>
         listen_loop start_time n s =
           listen_loop start_time n
             (s\<lparr>clock := clock s + 1000000, trace := trace s @ [Print Dot]\<rparr>)) \<and>
      except_timeout (for_range (Suc k) drain_step) (print NoMoreMessages) s =
        Val () (s\<lparr>clock := clock s + 1000000, trace := trace s @ [Print NoMoreMessages]\<rparr>)) \<and>
   (inbox s = (a, PeerClose) # rest \<and> a < clock s + 1000000 \<longrightarrow>
      recv_within 1000000 s = Exc ConnectionClosed (s\<lparr>clock := max (clock s) a\<rparr>) \<and>
      listen_step n s = Exc ConnectionClosed (s\<lparr>clock := max (clock s) a\<rparr>) \<and>
      (seconds (clock s - start_time) < timeout \<longrightarrow>
         listen_loop start_time n s = Exc ConnectionClosed (s\<lparr>clock := max (clock s) a\<rparr>)) \<and>
      except_timeout (for_range (Suc k) drain_step) (print NoMoreMessages) s =
        Exc ConnectionClosed (s\<lparr>clock := max (clock s) a\<rparr>))"
proof (intro conjI impI)
  assume quiet: "nothing_due 1000000 s"
  from quiet show "recv_within 1000000 s = Exc TimeoutError (s\<lparr>clock := clock s + 1000000\<rparr>)"
    by (rule recv_within_nothing_due)
  from quiet show "listen_step n s =
      Val n (s\<lparr>clock := clock s + 1000000, trace := trace s @ [Print Dot]\<rparr>)"
    by (rule listen_step_timeout)
  from quiet show "except_timeout (for_range (Suc k) drain_step) (print NoMoreMessages) s =
      Val () (s\<lparr>clock := clock s + 1000000, trace := trace s @ [Print NoMoreMessages]\<rparr>)"
    by (rule drain_timeout)
  assume "seconds (clock s - start_time) < timeout"
  then show "listen_loop start_time n s =
      listen_loop start_time n
        (s\<lparr>clock := clock s + 1000000, trace := trace s @ [Print Dot]\<rparr>)"
    using quiet by (rule listen_loop_timeout)
next
  assume "inbox s = (a, PeerClose) # rest \<and> a < clock s + 1000000"
  then have closed: "inbox s = (a, PeerClose) # rest" and soon: "a < clock s + 1000000"
    by simp_all
  from closed soon
  show "recv_within 1000000 s = Exc ConnectionClosed (s\<lparr>clock := max (clock s) a\<rparr>)"
    by (rule recv_within_closed)
  from closed soon
  show "listen_step n s = Exc ConnectionClosed (s\<lparr>clock := max (clock s) a\<rparr>)"
    by (rule listen_step_closed)
  from closed soon
  show "except_timeout (for_range (Suc k) drain_step) (print NoMoreMessages) s =
      Exc ConnectionClosed (s\<lparr>clock := max (clock s) a\<rparr>)"
    by (rule drain_closed)
  assume "seconds (clock s - start_time) < timeout"
  then show "listen_loop start_time n s = Exc ConnectionClosed (s\<lparr>clock := max (clock s) a\<rparr>)"
    using closed soon by (rule listen_loop_closed)
qed

theorem timeout_and_close_are_told_apart_witness:
  "nothing_due 1000000 (start []) \<and>
   listen_step 0 (start []) = Val 0 \<lparr>clock = 1000000, inbox = [], trace = [Print Dot]\<rparr> \<and>
   except_timeout (for_range (Suc 4) drain_step) (print NoMoreMessages) (start []) =
     Val () \<lparr>clock = 1000000, inbox = [], trace = [Print NoMoreMessages]\<rparr> \<and>
   inbox (start [(20, PeerClose)]) = [(20, PeerClose)] \<and>
   20 < clock (start [(20, PeerClose)]) + (1000000::nat) \<and>
   seconds (clock (start [(20, PeerClose)]) - 0) < timeout \<and>
   listen_step 0 (start [(20, PeerClose)]) =
     Exc ConnectionClosed \<lparr>clock = 20, inbox = [(20, PeerClose)], trace = []\<rparr> \<and>
   listen_loop 0 0 (start [(20, PeerClose)]) =
     Exc ConnectionClosed \<lparr>clock = 20, inbox = [(20, PeerClose)], trace = []\<rparr> \<and>
   except_timeout (for_range (Suc 4) drain_step) (print NoMoreMessages) (start [(20, PeerClose)]) =
     Exc ConnectionClosed \<lparr>clock = 20, inbox = [(20, PeerClose)], trace = []\<rparr>"
  using timeout_and_close_are_told_apart [of "start []" 0 0 4 20 "[]"]
    timeout_and_close_are_told_apart [of "start [(20, PeerClose)]" 0 0 4 20 "[]"]
  by (simp add: start_def nothing_due_def seconds_def timeout_def)

text \<open>
  C7: the listener run against a service that sends nothing during the ten seconds of
  listening ends normally, after ten receive attempts that each time out; it reports 0
  messages in 10 seconds, and the time that has passed when it ends is those 10 seconds.
  (Time is the model's: a receive that times out takes its one second, the script's own
  computation none.)
\<close>

theorem silent_server_summary:
  assumes "silent_until 10000000 evs"
  shows "test_websocket (start evs) =
     Val () \<lparr>clock = 10000000, inbox = evs, trace =
       [Print Connecting, Print Connected, Send get_snapshot, Print RequestedSnapshot,
        Print (ListeningFor 10)] @ replicate 10 (Print Dot) @
       [Print (ReceivedIn 0 10), Disconnect]\<rparr>"
proof -
  let ?s = "\<lparr>clock = 0, inbox = evs, trace =
       [Print Connecting, Print Connected, Send get_snapshot, Print RequestedSnapshot]\<rparr>"
  from silent_until_hd [OF assms]
  have "inbox ?s = [] \<or> clock ?s + 10000000 \<le> fst (hd (inbox ?s))" by simp
  moreover from assms have "\<not> closes_by 0 evs" by (rule silent_until_open) simp
  ultimately show ?thesis
    using listen_silent [of ?s]
    by (simp add: test_websocket_def websocket_body_def except_exception_def
        with_connection_def bnd_def print_def send_def emit_def start_def)
qed

theorem silent_server_summary_witness:
  "silent_until 10000000 [(12000000, Frame (snapshot_frame 3))] \<and>
   test_websocket (start [(12000000, Frame (snapshot_frame 3))]) =
     Val () \<lparr>clock = 10000000, inbox = [(12000000, Frame (snapshot_frame 3))], trace =
       [Print Connecting, Print Connected, Send get_snapshot, Print RequestedSnapshot,
        Print (ListeningFor 10), Print Dot, Print Dot, Print Dot, Print Dot, Print Dot,
        Print Dot, Print Dot, Print Dot, Print Dot, Print Dot,
        Print (ReceivedIn 0 10), Disconnect]\<rparr>"
  using silent_server_summary [of "[(12000000, Frame (snapshot_frame 3))]"]
  by (simp add: silent_until_def ten_times)

text \<open>
  C8, as the specification states it: a listener run always produces a summary, also
  when it ends early. The script does not: when the peer closes the connection, or a
  frame is not JSON, the run prints the error and ends without a summary line.
\<close>

theorem no_summary_counterexample:
  "test_websocket (start [(300, PeerClose)]) =
     Val () \<lparr>clock = 300, inbox = [(300, PeerClose)], trace =
       [Print Connecting, Print Connected, Send get_snapshot, Print RequestedSnapshot,
        Print (ListeningFor 10), Print (ErrorLine ConnectionClosed), Disconnect]\<rparr> \<and>
   test_websocket (start [(300, Frame (Rejected NotJson))]) =
     Val () \<lparr>clock = 300, inbox = [], trace =
       [Print Connecting, Print Connected, Send get_snapshot, Print RequestedSnapshot,
        Print (ListeningFor 10), Print (ErrorLine JSONDecodeError), Disconnect]\<rparr>"
proof -
  let ?tr = "[Print Connecting, Print Connected, Send get_snapshot, Print RequestedSnapshot,
               Print (ListeningFor timeout)]"
  let ?s = "\<lparr>clock = 0, inbox = [(300, PeerClose)], trace = ?tr\<rparr>"
  let ?u = "\<lparr>clock = 0, inbox = [(300, Frame (Rejected NotJson))], trace = ?tr\<rparr>"
  have "listen_loop 0 0 ?s = Exc ConnectionClosed (?s\<lparr>clock := max (clock ?s) 300\<rparr>)"
    by (rule listen_loop_closed) (simp_all add: seconds_0)
  moreover
  have "listen_loop 0 0 ?u = Exc (raised NotJson) (?u\<lparr>clock := max (clock ?u) 300, inbox := []\<rparr>)"
    by (rule listen_loop_rejected) (simp_all add: seconds_0)
  ultimately show ?thesis
    by (simp add: websocket_run timeout_def)
qed

text \<open>
  C8, amended: a listener run prints its summary line exactly when its request could be
  sent and the listening loop then runs to the end of its window. If the peer has closed
  the connection when the request is sent, the send, which stands outside the
  \<^verbatim>\<open>try\<close> block, raises and the run ends with that exception. When the loop is left
  by an exception, the run prints the error instead and its output has no summary line;
  a close by the peer or a frame that \<^verbatim>\<open>json.loads\<close> rejects, received at any pass
  of the loop, is such an exception.
\<close>

theorem summary_only_after_full_window:
  "test_websocket (start evs) =
     (if closes_by 0 evs then
        Exc ConnectionClosed \<lparr>clock = 0, inbox = evs, trace =
          [Print Connecting, Print Connected, Disconnect]\<rparr>
      else
        case listen_loop 0 0 (listening evs) of
          Val n s' \<Rightarrow> Val () (s'\<lparr>trace := trace s' @ [Print (ReceivedIn n timeout), Disconnect]\<rparr>)
        | Exc e s' \<Rightarrow> Val () (s'\<lparr>trace := trace s' @ [Print (ErrorLine e), Disconnect]\<rparr>)
        | Hang s' \<Rightarrow> Hang s') \<and>
   summaries (trace (state_of (test_websocket (start evs)))) =
     (if closes_by 0 evs then []
      else case listen_loop 0 0 (listening evs) of
             Val n s' \<Rightarrow> [(n, timeout)] | Exc e s' \<Rightarrow> [] | Hang s' \<Rightarrow> []) \<and>
   (seconds (clock s - start_time) < timeout \<and> inbox s = (a, x) # rest \<and>
    a < clock s + 1000000 \<and> (x = PeerClose \<or> x = Frame (Rejected why)) \<longrightarrow>
      (\<exists>e s'. listen_loop start_time n s = Exc e s'))"
proof (intro conjI impI)
  show run: "test_websocket (start evs) =
     (if closes_by 0 evs then
        Exc ConnectionClosed \<lparr>clock = 0, inbox = evs, trace =
          [Print Connecting, Print Connected, Disconnect]\<rparr>
      else
        case listen_loop 0 0 (listening evs) of
          Val n s' \<Rightarrow> Val () (s'\<lparr>trace := trace s' @ [Print (ReceivedIn n timeout), Disconnect]\<rparr>)
        | Exc e s' \<Rightarrow> Val () (s'\<lparr>trace := trace s' @ [Print (ErrorLine e), Disconnect]\<rparr>)
        | Hang s' \<Rightarrow> Hang s')"
    unfolding listening_def by (rule websocket_run)
  from plain_listen_loop [of 0 0 "listening evs"]
  have loop: "summaries (trace (state_of (listen_loop 0 0 (listening evs)))) = []"
    by (simp add: summaries_listening)
  show "summaries (trace (state_of (test_websocket (start evs)))) =
     (if closes_by 0 evs then []
      else case listen_loop 0 0 (listening evs) of
             Val n s' \<Rightarrow> [(n, timeout)] | Exc e s' \<Rightarrow> [] | Hang s' \<Rightarrow> [])"
  proof (cases "closes_by 0 evs")
    case True
    then show ?thesis unfolding run by (simp add: state_of_def summaries_def)
  next
    case False
    with loop show ?thesis
      unfolding run
      by (cases "listen_loop 0 0 (listening evs)")
         (simp_all add: state_of_def summaries_append, simp_all add: summaries_def)
  qed
next
  assume "seconds (clock s - start_time) < timeout \<and> inbox s = (a, x) # rest \<and>
    a < clock s + 1000000 \<and> (x = PeerClose \<or> x = Frame (Rejected why))"
  then show "\<exists>e s'. listen_loop start_time n s = Exc e s'"
    using listen_loop_closed [of s start_time a rest n]
      listen_loop_rejected [of s start_time a why rest n]
    by auto
qed

theorem summary_only_after_full_window_witness:
  "seconds (clock (listening [(300, PeerClose)]) - 0) < timeout \<and>
   inbox (listening [(300, PeerClose)]) = [(300, PeerClose)] \<and>
   300 < clock (listening [(300, PeerClose)]) + (1000000::nat) \<and>
   (\<exists>e s'. listen_loop 0 0 (listening [(300, PeerClose)]) = Exc e s') \<and>
   summaries (trace (state_of (test_websocket (start [(300, PeerClose)])))) = []"
proof -
  have a: "seconds (clock (listening [(300, PeerClose)]) - 0) < timeout"
    by (simp add: listening_def seconds_0)
  have b: "inbox (listening [(300, PeerClose)]) = [(300, PeerClose)]"
    by (simp add: listening_def)
  have c: "300 < clock (listening [(300, PeerClose)]) + (1000000::nat)"
    by (simp add: listening_def)
  note t = summary_only_after_full_window
    [where evs = "[(300, PeerClose)]" and s = "listening [(300, PeerClose)]"
       and start_time = 0 and a = 300 and x = PeerClose and rest = "[]" and n = 0]
  from t a b c
  have d: "\<exists>e s'. listen_loop 0 0 (listening [(300, PeerClose)]) = Exc e s'"
    by blast
  from t
  have "summaries (trace (state_of (test_websocket (start [(300, PeerClose)])))) =
     (if closes_by 0 [(300, PeerClose)] then []
      else case listen_loop 0 0 (listening [(300, PeerClose)]) of
             Val n s' \<Rightarrow> [(n, timeout)] | Exc e s' \<Rightarrow> [] | Hang s' \<Rightarrow> [])"
    by blast
  with d have "summaries (trace (state_of (test_websocket (start [(300, PeerClose)])))) = []"
    by auto
  with a b c d show ?thesis by simp
qed

text \<open>
  C9: the two-creation script reads \<^verbatim>\<open>payload.particles\<close> from every reply without
  looking at its \<^verbatim>\<open>type\<close>. A reply that is a dict with a dict payload lacking
  \<^verbatim>\<open>particles\<close>, whatever its type, ends the run with an unhandled
  \<^verbatim>\<open>KeyError\<close>, at the first, second or third reply alike, and no failure line is
  printed for the step. (The reply is read only if the peer has not closed the
  connection by the time of the request before it; otherwise that send raises.)
\<close>

theorem reply_without_particles_is_unhandled:
  assumes "map_of kvs ''payload'' = Some (JObj p)" and "map_of p ''particles'' = None"
    and "bad = (t, Frame (Decodable (JObj kvs)))"
  shows "(\<not> closes_by 0 rest \<longrightarrow>
           test_create_particle (start (bad # rest)) =
             Exc (KeyError ''particles'') \<lparr>clock = t, inbox = rest, trace =
               [Print Connecting, Print Connected, Send get_snapshot, Disconnect]\<rparr>) \<and>
         (reply_count first = Inr initial_count \<and> \<not> closes_by (ta + 500000) rest \<longrightarrow>
           (\<exists>c. test_create_particle (start ((ta, Frame first) # bad # rest)) =
             Exc (KeyError ''particles'') \<lparr>clock = c, inbox = rest, trace =
               [Print Connecting, Print Connected, Send get_snapshot,
                Print (InitialCount initial_count),
                Print CreatingProton, Send (create_msg ''proton'' 5), Send get_snapshot,
                Disconnect]\<rparr>)) \<and>
         (reply_count first = Inr initial_count \<and> reply_count second = Inr new_count \<and>
          \<not> closes_by (max (ta + 500000) tb + 500000) rest \<longrightarrow>
           (\<exists>c. test_create_particle
                 (start ((ta, Frame first) # (tb, Frame second) # bad # rest)) =
             Exc (KeyError ''particles'') \<lparr>clock = c, inbox = rest, trace =
               [Print Connecting, Print Connected, Send get_snapshot,
                Print (InitialCount initial_count),
                Print CreatingProton, Send (create_msg ''proton'' 5), Send get_snapshot,
                Print (NewCount new_count),
                Print (if initial_count < new_count then ParticleCreated
                       else ParticleCreationFailed),
                Print CreatingNeutron, Send (create_msg ''neutron'' (- 5)), Send get_snapshot,
                Disconnect]\<rparr>))"
  unfolding assms(3)
proof (intro conjI impI)
  note no_particles = reply_count_no_particles [OF assms(1,2)]
  {
    assume "\<not> closes_by 0 rest"
    with no_particles
    show "test_create_particle (start ((t, Frame (Decodable (JObj kvs))) # rest)) =
             Exc (KeyError ''particles'') \<lparr>clock = t, inbox = rest, trace =
               [Print Connecting, Print Connected, Send get_snapshot, Disconnect]\<rparr>"
      by (rule create_particle_raises_1)
  next
    assume "reply_count first = Inr initial_count \<and> \<not> closes_by (ta + 500000) rest"
    then have a: "reply_count first = Inr initial_count" and b: "\<not> closes_by (ta + 500000) rest"
      by simp_all
    from a no_particles b
    show "\<exists>c. test_create_particle
            (start ((ta, Frame first) # (t, Frame (Decodable (JObj kvs))) # rest)) =
             Exc (KeyError ''particles'') \<lparr>clock = c, inbox = rest, trace =
               [Print Connecting, Print Connected, Send get_snapshot,
                Print (InitialCount initial_count),
                Print CreatingProton, Send (create_msg ''proton'' 5), Send get_snapshot,
                Disconnect]\<rparr>"
      by (rule create_particle_raises_2)
  next
    assume "reply_count first = Inr initial_count \<and> reply_count second = Inr new_count \<and>
          \<not> closes_by (max (ta + 500000) tb + 500000) rest"
    then have a: "reply_count first = Inr initial_count"
      and b: "reply_count second = Inr new_count"
      and c: "\<not> closes_by (max (ta + 500000) tb + 500000) rest"
      by simp_all
    from a b no_particles c
    show "\<exists>c. test_create_particle
                 (start ((ta, Frame first) # (tb, Frame second) #
                    (t, Frame (Decodable (JObj kvs))) # rest)) =
             Exc (KeyError ''particles'') \<lparr>clock = c, inbox = rest, trace =
               [Print Connecting, Print Connected, Send get_snapshot,
                Print (InitialCount initial_count),
                Print CreatingProton, Send (create_msg ''proton'' 5), Send get_snapshot,
                Print (NewCount new_count),
                Print (if initial_count < new_count then ParticleCreated
                       else ParticleCreationFailed),
                Print CreatingNeutron, Send (create_msg ''neutron'' (- 5)), Send get_snapshot,
                Disconnect]\<rparr>"
      by (rule create_particle_raises_3)
  }
qed

theorem reply_without_particles_is_unhandled_witness:
  "map_of [(''type'', JStr ''error''), (''payload'', JObj [(''message'', JStr ''unknown species'')])]
      ''payload'' = Some (JObj [(''message'', JStr ''unknown species'')]) \<and>
   map_of [(''message'', JStr ''unknown species'')] ''particles'' = None \<and>
   reply_count (snapshot_frame 2) = Inr 2 \<and> reply_count (snapshot_frame 3) = Inr 3 \<and>
   \<not> closes_by 0 [(2000000, PeerClose)] \<and>
   \<not> closes_by (max (0 + 500000) 0 + 500000) [(2000000, PeerClose)] \<and>
   test_create_particle (start [(7, Frame error_frame), (2000000, PeerClose)]) =
     Exc (KeyError ''particles'') \<lparr>clock = 7, inbox = [(2000000, PeerClose)], trace =
       [Print Connecting, Print Connected, Send get_snapshot, Disconnect]\<rparr> \<and>
   (\<exists>c. test_create_particle (start
        [(0, Frame (snapshot_frame 2)), (0, Frame (snapshot_frame 3)), (7, Frame error_frame),
         (2000000, PeerClose)]) =
     Exc (KeyError ''particles'') \<lparr>clock = c, inbox = [(2000000, PeerClose)], trace =
       [Print Connecting, Print Connected, Send get_snapshot, Print (InitialCount 2),
        Print CreatingProton, Send (create_msg ''proton'' 5), Send get_snapshot,
        Print (NewCount 3), Print ParticleCreated,
        Print CreatingNeutron, Send (create_msg ''neutron'' (- 5)), Send get_snapshot,
        Disconnect]\<rparr>)"
  using reply_without_particles_is_unhandled
    [where kvs = "[(''type'', JStr ''error''),
                   (''payload'', JObj [(''message'', JStr ''unknown species'')])]"
       and p = "[(''message'', JStr ''unknown species'')]"
       and first = "snapshot_frame 2" and second = "snapshot_frame 3"
       and initial_count = 2 and new_count = 3 and t = 7 and ta = 0 and tb = 0
       and rest = "[(2000000, PeerClose)]" and bad = "(7, Frame error_frame)"]
  by (simp add: reply_count_snapshot_frame error_frame_def)

text \<open>
  C10: the loop of the debug script that listens for responses makes at most five
  receive attempts of at most one second each: one pass takes at most one event and one
  second, the whole loop (and the whole script) at most five events and five seconds.
  It ends at the first attempt that times out: if after \<open>j < 5\<close> completed passes
  nothing arrives within a second, the loop ends there with "No more messages" and
  takes nothing more.
\<close>

theorem drain_is_bounded:
  "(\<exists>k\<le>1. inbox (state_of (drain_step s)) = drop k (inbox s)) \<and>
   clock (state_of (drain_step s)) \<le> clock s + 1000000 \<and>
   (\<exists>k\<le>5. inbox (state_of (listen_for_responses s)) = drop k (inbox s)) \<and>
   clock (state_of (listen_for_responses s)) \<le> clock s + 5000000 \<and>
   (\<exists>k\<le>5. inbox (state_of (test_create_particle_debug s)) = drop k (inbox s)) \<and>
   clock (state_of (test_create_particle_debug s)) \<le> clock s + 5000000 \<and>
   (j < 5 \<and> for_range j drain_step s = Val () s1 \<and> nothing_due 1000000 s1 \<longrightarrow>
      listen_for_responses s =
        Val () (s1\<lparr>clock := clock s1 + 1000000, trace := trace s1 @ [Print NoMoreMessages]\<rparr>))"
proof -
  have "j < 5 \<and> for_range j drain_step s = Val () s1 \<and> nothing_due 1000000 s1 \<longrightarrow>
      listen_for_responses s =
        Val () (s1\<lparr>clock := clock s1 + 1000000, trace := trace s1 @ [Print NoMoreMessages]\<rparr>)"
  proof (intro impI, elim conjE)
    assume j: "j < 5" and ran: "for_range j drain_step s = Val () s1"
      and quiet: "nothing_due 1000000 s1"
    have "for_range (j + Suc (4 - j)) drain_step s =
        Exc TimeoutError (s1\<lparr>clock := clock s1 + 1000000\<rparr>)"
      using ran quiet by (rule first_timeout_ends)
    then have "for_range 5 drain_step s = Exc TimeoutError (s1\<lparr>clock := clock s1 + 1000000\<rparr>)"
      by (simp only: five_split [OF j, symmetric])
    then show "listen_for_responses s =
        Val () (s1\<lparr>clock := clock s1 + 1000000, trace := trace s1 @ [Print NoMoreMessages]\<rparr>)"
      by (simp add: listen_for_responses_def except_timeout_def print_def emit_def)
  qed
  moreover from drain_step_taken [of s]
  have "(\<exists>k\<le>1. inbox (state_of (drain_step s)) = drop k (inbox s)) \<and>
   clock (state_of (drain_step s)) \<le> clock s + 1000000"
    unfolding taken_def .
  moreover from listen_for_responses_taken [of s]
  have "(\<exists>k\<le>5. inbox (state_of (listen_for_responses s)) = drop k (inbox s)) \<and>
   clock (state_of (listen_for_responses s)) \<le> clock s + 5000000"
    unfolding taken_def .
  moreover from debug_taken [of s]
  have "(\<exists>k\<le>5. inbox (state_of (test_create_particle_debug s)) = drop k (inbox s)) \<and>
   clock (state_of (test_create_particle_debug s)) \<le> clock s + 5000000"
    unfolding taken_def .
  ultimately show ?thesis by (intro conjI) (erule conjunct1 conjunct2 | assumption)+
qed

theorem drain_is_bounded_witness:
  "(1::nat) < 5 \<and>
   for_range 1 drain_step (start [(0, Frame (snapshot_frame 2))]) =
     Val () \<lparr>clock = 0, inbox = [], trace =
       [Print (Received (JStr ''snapshot'')), Print (SnapshotWith 2)]\<rparr> \<and>
   nothing_due 1000000 \<lparr>clock = 0, inbox = [], trace =
       [Print (Received (JStr ''snapshot'')), Print (SnapshotWith 2)]\<rparr> \<and>
   listen_for_responses (start [(0, Frame (snapshot_frame 2))]) =
     Val () \<lparr>clock = 1000000, inbox = [], trace =
       [Print (Received (JStr ''snapshot'')), Print (SnapshotWith 2),
        Print NoMoreMessages]\<rparr>"
proof -
  let ?s = "start [(0, Frame (snapshot_frame 2))]"
  let ?s1 = "\<lparr>clock = 0, inbox = [], trace =
       [Print (Received (JStr ''snapshot'')), Print (SnapshotWith 2)]\<rparr>"
  have a: "for_range 1 drain_step ?s = Val () ?s1"
    by (simp add: drain_step_def bnd_def recv_within_def lift_def print_def emit_def
        start_def snapshot_frame_def particle_count_def)
  have b: "nothing_due 1000000 ?s1" by (simp add: nothing_due_def)
  from drain_is_bounded [of ?s 1 ?s1] a b
  have "listen_for_responses ?s =
     Val () (?s1\<lparr>clock := clock ?s1 + 1000000, trace := trace ?s1 @ [Print NoMoreMessages]\<rparr>)"
    by simp
  with a b show ?thesis by simp
qed

end
